theory Spec2Isabelle
  imports Complex_Main
begin

section \<open>Python values, exceptions and formatted text\<close>

text \<open>
  The program is \<^verbatim>\<open>sample_app.py\<close>: a client class \<^verbatim>\<open>RCUAPIClient\<close> with four
  methods, each making one HTTP call through the \<^verbatim>\<open>requests\<close> library, and a driver
  \<^verbatim>\<open>main\<close>. The values the program handles are the ones a decoded JSON body can hold:
  \<^verbatim>\<open>None\<close>, booleans, integers, floats, strings, lists and dictionaries with string keys.

  A Python string is the list of its code points, so that it can hold any character a
  JSON body can, a lone surrogate (\<^verbatim>\<open>"\ud800"\<close>) included; \<open>str\<close> turns the text of a literal
  of the program into such a string. A dictionary is an association list in insertion
  order; a lookup takes the first entry of a key, and a dictionary built by Python has
  each key once.
\<close>

type_synonym pystr = "nat list"

definition str :: "string \<Rightarrow> pystr" where
  "str s = map of_char s"

datatype pyfloat = Finite rat | PosInf | NegInf | NaN

datatype pyval =
    PNone
  | PBool bool
  | PInt int
  | PFloat pyfloat
  | PStr pystr
  | PList "pyval list"
  | PDict "(pystr \<times> pyval) list"

text \<open>
  The exceptions that can occur. \<open>RequestException\<close> stands for every instance of
  \<^verbatim>\<open>requests.exceptions.RequestException\<close>, its subclasses included (connection errors,
  timeouts, and the JSON decoding error of the releases of the library that derive it from
  that class); \<open>ValueError\<close> for a decoding error that is not one. The argument is the
  message, or for \<open>KeyError\<close>, \<open>AttributeError\<close>, \<open>TypeError\<close> and \<open>UnicodeEncodeError\<close> the
  key, the attribute, the builtin and the codec that failed.
\<close>

datatype exn =
    RequestException string
  | KeyError string
  | AttributeError string
  | TypeError string
  | ValueError string
  | UnicodeEncodeError string

text \<open>
  An f-string is kept as the list of its fragments: the literal pieces and the values
  interpolated between them, which Python's \<^verbatim>\<open>str\<close> would render. \<open>Tick\<close> and \<open>Cross\<close>
  are the check mark (U+2713) and the ballot cross (U+2717) that open the status lines.
\<close>

datatype frag = Lit string | Tick | Cross | Fmt pyval | FmtInt int | FmtExn exn

type_synonym fstring = "frag list"

text \<open>Python's truth value of an object, as \<^verbatim>\<open>not x\<close> and \<^verbatim>\<open>if x\<close> test it.\<close>

fun truthy :: "pyval \<Rightarrow> bool" where
  "truthy PNone = False"
| "truthy (PBool b) = b"
| "truthy (PInt i) = (i \<noteq> 0)"
| "truthy (PFloat f) = (f \<noteq> Finite 0)"
| "truthy (PStr s) = (s \<noteq> [])"
| "truthy (PList xs) = (xs \<noteq> [])"
| "truthy (PDict kvs) = (kvs \<noteq> [])"

text \<open>
  \<^verbatim>\<open>x.get(k, d)\<close>: the value under \<open>k\<close>, or \<open>d\<close> when the key is absent. Only a dictionary
  has the method; on any other value the attribute lookup raises \<^verbatim>\<open>AttributeError\<close>.
\<close>

fun py_get :: "pyval \<Rightarrow> string \<Rightarrow> pyval \<Rightarrow> exn + pyval" where
  "py_get (PDict kvs) k d = Inr (case map_of kvs (str k) of None \<Rightarrow> d | Some v \<Rightarrow> v)"
| "py_get _ k d = Inl (AttributeError ''get'')"

text \<open>\<^verbatim>\<open>len(x)\<close>: defined on strings, lists and dictionaries; \<^verbatim>\<open>TypeError\<close> otherwise.\<close>

fun py_len :: "pyval \<Rightarrow> exn + nat" where
  "py_len (PStr s) = Inr (length s)"
| "py_len (PList xs) = Inr (length xs)"
| "py_len (PDict kvs) = Inr (length (remdups (map fst kvs)))"
| "py_len _ = Inl (TypeError ''len'')"

text \<open>\<^verbatim>\<open>d[k]\<close> on a dictionary: \<^verbatim>\<open>KeyError\<close> when the key is absent.\<close>

definition subscript :: "(string \<times> 'v) list \<Rightarrow> string \<Rightarrow> exn + 'v" where
  "subscript d k = (case map_of d k of None \<Rightarrow> Inl (KeyError k) | Some v \<Rightarrow> Inr v)"

section \<open>The environment: the HTTP library, the clock and standard output\<close>

datatype http_method = GET | POST

record request =
  req_method :: http_method
  req_url :: string
  req_headers :: "(string \<times> fstring) list"
  req_json :: "pyval option"

text \<open>
  A response as the program reads it: its \<^verbatim>\<open>status_code\<close>, and what calling
  \<^verbatim>\<open>response.json()\<close> does, which is to return the decoded body or to raise.
\<close>

record response =
  status_code :: int
  json :: "exn + pyval"

text \<open>
  What the program cannot decide is a parameter: \<open>http\<close> is what a call of
  \<^verbatim>\<open>requests.get\<close> or \<^verbatim>\<open>requests.post\<close> does (it returns a response or raises), given the
  requests made before it and the request itself; \<open>clock\<close> is
  \<^verbatim>\<open>datetime.now().isoformat()\<close> at its n-th reading.
\<close>

record env =
  http :: "request list \<Rightarrow> request \<Rightarrow> exn + response"
  clock :: "nat \<Rightarrow> string"

text \<open>
  The effects of the program on the outside: the requests handed to the HTTP library,
  oldest first, the lines printed, and how often the clock was read.
\<close>

record world =
  sent :: "request list"
  stdout :: "fstring list"
  ticks :: nat

text \<open>
  Standard output is a UTF-8 text stream, Python's default. \<^verbatim>\<open>print\<close> encodes the line
  before it writes any of it, and UTF-8 encodes every character but a surrogate
  (U+D800 to U+DFFF). A surrogate reaches a line only through an interpolated string:
  the literal pieces are the program's own text, an integer is digits, the message of an
  exception is the library's text, and \<^verbatim>\<open>str\<close> of \<^verbatim>\<open>None\<close>, a boolean, a number, a list
  or a dictionary is ASCII or escapes the surrogates of the strings inside it.
\<close>

definition surrogate :: "nat \<Rightarrow> bool" where
  "surrogate c = (55296 \<le> c \<and> c \<le> 57343)"

fun encodable :: "frag \<Rightarrow> bool" where
  "encodable (Fmt (PStr s)) = list_all (\<lambda>c. \<not> surrogate c) s"
| "encodable _ = True"

text \<open>
  \<open>echo\<close> is the world once a line has been written. \<^verbatim>\<open>print(line)\<close> writes the line,
  or raises \<^verbatim>\<open>UnicodeEncodeError\<close> and writes nothing when the line cannot be encoded.
\<close>

definition echo :: "fstring \<Rightarrow> world \<Rightarrow> world" where
  "echo line w = w\<lparr>stdout := stdout w @ [line]\<rparr>"

definition print :: "fstring \<Rightarrow> world \<Rightarrow> exn + world" where
  "print line w =
     (if list_all encodable line then Inr (echo line w)
      else Inl (UnicodeEncodeError ''utf-8''))"

definition requests_call :: "env \<Rightarrow> request \<Rightarrow> world \<Rightarrow> (exn + response) \<times> world" where
  "requests_call E rq w = (http E (sent w) rq, w\<lparr>sent := sent w @ [rq]\<rparr>)"

definition requests_post ::
  "env \<Rightarrow> string \<Rightarrow> (string \<times> fstring) list \<Rightarrow> pyval \<Rightarrow> world \<Rightarrow> (exn + response) \<times> world" where
  "requests_post E u hs payload =
     requests_call E \<lparr>req_method = POST, req_url = u, req_headers = hs, req_json = Some payload\<rparr>"

definition requests_get ::
  "env \<Rightarrow> string \<Rightarrow> (string \<times> fstring) list \<Rightarrow> world \<Rightarrow> (exn + response) \<times> world" where
  "requests_get E u hs =
     requests_call E \<lparr>req_method = GET, req_url = u, req_headers = hs, req_json = None\<rparr>"

definition datetime_now_isoformat :: "env \<Rightarrow> world \<Rightarrow> string \<times> world" where
  "datetime_now_isoformat E w = (clock E (ticks w), w\<lparr>ticks := Suc (ticks w)\<rparr>)"

section \<open>Configuration\<close>

definition RCU_API_KEY :: string where
  "RCU_API_KEY = ''rcu_live_sk_1234567890abcdef1234567890abcdef''"

definition RCU_SECRET_KEY :: string where
  "RCU_SECRET_KEY = ''rcu_secret_0987654321fedcba0987654321fedcba''"

definition RCU_CLIENT_ID :: string where
  "RCU_CLIENT_ID = ''client_rcu_abc123xyz789''"

definition RCU_API_BASE_URL :: string where
  "RCU_API_BASE_URL = ''https://api.rcu.gov.sa''"

definition ENDPOINTS :: "(string \<times> string) list" where
  "ENDPOINTS =
     [(''auth'', RCU_API_BASE_URL @ ''/v1/auth/token''),
      (''permits'', RCU_API_BASE_URL @ ''/v1/permits''),
      (''heritage_sites'', RCU_API_BASE_URL @ ''/v1/heritage/sites''),
      (''visitor_management'', RCU_API_BASE_URL @ ''/v1/visitors''),
      (''event_booking'', RCU_API_BASE_URL @ ''/v1/events/booking'')]"

section \<open>The client\<close>

record RCUAPIClient =
  api_key :: string
  secret_key :: string
  client_id :: string
  access_token :: pyval

definition RCUAPIClient_init :: "string \<Rightarrow> string \<Rightarrow> string \<Rightarrow> RCUAPIClient" where
  "RCUAPIClient_init k s c =
     \<lparr>api_key = k, secret_key = s, client_id = c, access_token = PNone\<rparr>"

text \<open>
  A method returns its result, or the exception that leaves it, together with the client
  and the world as the call left them.
\<close>

type_synonym 'a outcome = "(exn + 'a) \<times> RCUAPIClient \<times> world"

subsection \<open>authenticate\<close>

definition authenticate_headers :: "RCUAPIClient \<Rightarrow> (string \<times> fstring) list" where
  "authenticate_headers self =
     [(''Content-Type'', [Lit ''application/json'']),
      (''X-API-Key'', [Lit (api_key self)])]"

definition authenticate_payload :: "RCUAPIClient \<Rightarrow> pyval" where
  "authenticate_payload self =
     PDict [(str ''client_id'', PStr (str (client_id self))),
            (str ''secret_key'', PStr (str (secret_key self))),
            (str ''grant_type'', PStr (str ''client_credentials''))]"

text \<open>
  The \<^verbatim>\<open>except requests.exceptions.RequestException as e\<close> clause of \<^verbatim>\<open>authenticate\<close>:
  an exception of that class is printed and turned into \<^verbatim>\<open>False\<close>; any other leaves the
  method, and so does one that the \<^verbatim>\<open>print\<close> of the clause itself raises.
\<close>

definition authenticate_except :: "exn \<Rightarrow> RCUAPIClient \<Rightarrow> world \<Rightarrow> bool outcome" where
  "authenticate_except e self w =
     (case e of
        RequestException m \<Rightarrow>
          (case print [Cross, Lit '' Connection error: '', FmtExn e] w of
             Inl e' \<Rightarrow> (Inl e', self, w)
           | Inr w' \<Rightarrow> (Inr False, self, w'))
      | _ \<Rightarrow> (Inl e, self, w))"

text \<open>
  Everything from the lookup of the endpoint to the \<^verbatim>\<open>return\<close> is inside the \<^verbatim>\<open>try\<close>, the
  two \<^verbatim>\<open>print\<close> calls included: whatever is raised there goes to the \<^verbatim>\<open>except\<close> clause.
  The token is assigned before the success line is printed.
\<close>

definition authenticate :: "env \<Rightarrow> RCUAPIClient \<Rightarrow> world \<Rightarrow> bool outcome" where
  "authenticate E self w =
     (let headers = authenticate_headers self;
          payload = authenticate_payload self
      in case subscript ENDPOINTS ''auth'' of
           Inl e \<Rightarrow> authenticate_except e self w
         | Inr u \<Rightarrow>
            (case requests_post E u headers payload w of
               (Inl e, w1) \<Rightarrow> authenticate_except e self w1
             | (Inr response, w1) \<Rightarrow>
                 if status_code response = 200 then
                   (case json response of
                      Inl e \<Rightarrow> authenticate_except e self w1
                    | Inr data \<Rightarrow>
                       (case py_get data ''access_token'' PNone of
                          Inl e \<Rightarrow> authenticate_except e self w1
                        | Inr tok \<Rightarrow>
                           (case print [Tick, Lit '' Successfully authenticated with RCU at '',
                                        Lit RCU_API_BASE_URL] w1 of
                              Inl e \<Rightarrow> authenticate_except e (self\<lparr>access_token := tok\<rparr>) w1
                            | Inr w2 \<Rightarrow> (Inr True, self\<lparr>access_token := tok\<rparr>, w2))))
                 else
                   (case print [Cross, Lit '' Authentication failed: '',
                                FmtInt (status_code response)] w1 of
                      Inl e \<Rightarrow> authenticate_except e self w1
                    | Inr w2 \<Rightarrow> (Inr False, self, w2))))"

subsection \<open>The three authenticated calls\<close>

text \<open>
  Each of the three methods has the same \<^verbatim>\<open>except\<close> clause, printing
  \<^verbatim>\<open>Request error\<close> and returning \<^verbatim>\<open>None\<close>, and the same test and line for a call without a
  token, which come before the \<^verbatim>\<open>try\<close>.
\<close>

definition request_except :: "exn \<Rightarrow> RCUAPIClient \<Rightarrow> world \<Rightarrow> pyval outcome" where
  "request_except e self w =
     (case e of
        RequestException m \<Rightarrow>
          (case print [Cross, Lit '' Request error: '', FmtExn e] w of
             Inl e' \<Rightarrow> (Inl e', self, w)
           | Inr w' \<Rightarrow> (Inr PNone, self, w'))
      | _ \<Rightarrow> (Inl e, self, w))"

definition not_authenticated :: fstring where
  "not_authenticated = [Cross, Lit '' Not authenticated. Call authenticate() first.'']"

definition refuse :: "RCUAPIClient \<Rightarrow> world \<Rightarrow> pyval outcome" where
  "refuse self w =
     (case print not_authenticated w of
        Inl e \<Rightarrow> (Inl e, self, w)
      | Inr w' \<Rightarrow> (Inr PNone, self, w'))"

definition get_heritage_sites_headers :: "RCUAPIClient \<Rightarrow> (string \<times> fstring) list" where
  "get_heritage_sites_headers self =
     [(''Authorization'', [Lit ''Bearer '', Fmt (access_token self)]),
      (''X-API-Key'', [Lit (api_key self)])]"

definition get_heritage_sites :: "env \<Rightarrow> RCUAPIClient \<Rightarrow> world \<Rightarrow> pyval outcome" where
  "get_heritage_sites E self w =
     (if \<not> truthy (access_token self) then refuse self w
      else
        let headers = get_heritage_sites_headers self
        in case subscript ENDPOINTS ''heritage_sites'' of
             Inl e \<Rightarrow> request_except e self w
           | Inr u \<Rightarrow>
              (case requests_get E u headers w of
                 (Inl e, w1) \<Rightarrow> request_except e self w1
               | (Inr response, w1) \<Rightarrow>
                   if status_code response = 200 then
                     (case json response of
                        Inl e \<Rightarrow> request_except e self w1
                      | Inr sites \<Rightarrow>
                         (case py_get sites ''sites'' (PList []) of
                            Inl e \<Rightarrow> request_except e self w1
                          | Inr listed \<Rightarrow>
                             (case py_len listed of
                                Inl e \<Rightarrow> request_except e self w1
                              | Inr n \<Rightarrow>
                                 (case print [Tick, Lit '' Retrieved '', FmtInt (int n),
                                              Lit '' heritage sites''] w1 of
                                    Inl e \<Rightarrow> request_except e self w1
                                  | Inr w2 \<Rightarrow> (Inr sites, self, w2)))))
                   else
                     (case print [Cross, Lit '' Failed to retrieve sites: '',
                                  FmtInt (status_code response)] w1 of
                        Inl e \<Rightarrow> request_except e self w1
                      | Inr w2 \<Rightarrow> (Inr PNone, self, w2))))"

definition json_headers :: "RCUAPIClient \<Rightarrow> (string \<times> fstring) list" where
  "json_headers self =
     [(''Authorization'', [Lit ''Bearer '', Fmt (access_token self)]),
      (''X-API-Key'', [Lit (api_key self)]),
      (''Content-Type'', [Lit ''application/json''])]"

definition submit_visitor_permit_payload :: "pyval \<Rightarrow> string \<Rightarrow> pyval" where
  "submit_visitor_permit_payload visitor_data now =
     PDict [(str ''visitor_info'', visitor_data),
            (str ''submission_date'', PStr (str now)),
            (str ''api_version'', PStr (str ''v1''))]"

text \<open>
  The success line of \<^verbatim>\<open>submit_visitor_permit\<close> interpolates \<^verbatim>\<open>permit.get('permit_id')\<close>,
  a value the server chose, and is printed inside the \<^verbatim>\<open>try\<close> before the \<^verbatim>\<open>return\<close>: when
  it cannot be encoded, \<^verbatim>\<open>print\<close> raises and the permit is not returned.
\<close>

definition submit_visitor_permit :: "env \<Rightarrow> pyval \<Rightarrow> RCUAPIClient \<Rightarrow> world \<Rightarrow> pyval outcome" where
  "submit_visitor_permit E visitor_data self w =
     (if \<not> truthy (access_token self) then refuse self w
      else
        let headers = json_headers self;
            (now, w0) = datetime_now_isoformat E w;
            payload = submit_visitor_permit_payload visitor_data now
        in case subscript ENDPOINTS ''permits'' of
             Inl e \<Rightarrow> request_except e self w0
           | Inr u \<Rightarrow>
              (case requests_post E u headers payload w0 of
                 (Inl e, w1) \<Rightarrow> request_except e self w1
               | (Inr response, w1) \<Rightarrow>
                   if status_code response = 201 then
                     (case json response of
                        Inl e \<Rightarrow> request_except e self w1
                      | Inr permit \<Rightarrow>
                         (case py_get permit ''permit_id'' PNone of
                            Inl e \<Rightarrow> request_except e self w1
                          | Inr permit_id \<Rightarrow>
                             (case print [Tick,
                                          Lit '' Permit submitted successfully. Permit ID: '',
                                          Fmt permit_id] w1 of
                                Inl e \<Rightarrow> request_except e self w1
                              | Inr w2 \<Rightarrow> (Inr permit, self, w2))))
                   else
                     (case print [Cross, Lit '' Failed to submit permit: '',
                                  FmtInt (status_code response)] w1 of
                        Inl e \<Rightarrow> request_except e self w1
                      | Inr w2 \<Rightarrow> (Inr PNone, self, w2))))"

definition book_event_payload :: "pyval \<Rightarrow> pyval \<Rightarrow> string \<Rightarrow> pyval" where
  "book_event_payload event_id attendee_count now =
     PDict [(str ''event_id'', event_id),
            (str ''attendee_count'', attendee_count),
            (str ''booking_date'', PStr (str now))]"

text \<open>
  The success line of \<^verbatim>\<open>book_event\<close> interpolates \<^verbatim>\<open>booking.get('booking_id')\<close> in the
  same way.
\<close>

definition book_event :: "env \<Rightarrow> pyval \<Rightarrow> pyval \<Rightarrow> RCUAPIClient \<Rightarrow> world \<Rightarrow> pyval outcome" where
  "book_event E event_id attendee_count self w =
     (if \<not> truthy (access_token self) then refuse self w
      else
        let headers = json_headers self;
            (now, w0) = datetime_now_isoformat E w;
            payload = book_event_payload event_id attendee_count now
        in case subscript ENDPOINTS ''event_booking'' of
             Inl e \<Rightarrow> request_except e self w0
           | Inr u \<Rightarrow>
              (case requests_post E u headers payload w0 of
                 (Inl e, w1) \<Rightarrow> request_except e self w1
               | (Inr response, w1) \<Rightarrow>
                   if status_code response = 201 then
                     (case json response of
                        Inl e \<Rightarrow> request_except e self w1
                      | Inr booking \<Rightarrow>
                         (case py_get booking ''booking_id'' PNone of
                            Inl e \<Rightarrow> request_except e self w1
                          | Inr booking_id \<Rightarrow>
                             (case print [Tick,
                                          Lit '' Event booked successfully. Booking ID: '',
                                          Fmt booking_id] w1 of
                                Inl e \<Rightarrow> request_except e self w1
                              | Inr w2 \<Rightarrow> (Inr booking, self, w2))))
                   else
                     (case print [Cross, Lit '' Failed to book event: '',
                                  FmtInt (status_code response)] w1 of
                        Inl e \<Rightarrow> request_except e self w1
                      | Inr w2 \<Rightarrow> (Inr PNone, self, w2))))"

section \<open>The driver\<close>

text \<open>
  \<open>prints\<close> prints lines one after another and stops at the first whose \<^verbatim>\<open>print\<close> raises;
  \<open>echoes\<close> is the world once all of them have been written.
\<close>

fun prints :: "fstring list \<Rightarrow> world \<Rightarrow> exn option \<times> world" where
  "prints [] w = (None, w)"
| "prints (line # ls) w =
     (case print line w of
        Inl e \<Rightarrow> (Some e, w)
      | Inr w' \<Rightarrow> prints ls w')"

definition echoes :: "fstring list \<Rightarrow> world \<Rightarrow> world" where
  "echoes ls w = fold echo ls w"

definition visitor_data :: pyval where
  "visitor_data =
     PDict [(str ''name'', PStr (str ''John Doe'')),
            (str ''nationality'', PStr (str ''US'')),
            (str ''visit_date'', PStr (str ''2024-01-15'')),
            (str ''purpose'', PStr (str ''Heritage site tour''))]"

definition rule_line :: fstring where
  "rule_line = [Lit (replicate 60 (CHR ''=''))]"

text \<open>
  The lines \<^verbatim>\<open>main\<close> prints, in the groups in which it prints them: the banner, the
  lines before each of the four steps, and the closing lines of a completed run and of a
  run whose authentication failed. \<^verbatim>\<open>print\<close> with two arguments puts a space between them.
\<close>

definition banner_lines :: "fstring list" where
  "banner_lines =
     [rule_line,
      [Lit ''RCU API Integration - Sample Application''],
      [Lit ''Royal Commission for Alula (rcu.gov.sa)''],
      rule_line,
      []]"

definition step1_lines :: "fstring list" where
  "step1_lines =
     [[Lit ''Connecting to RCU services at: '', Lit RCU_API_BASE_URL],
      [],
      [Lit ''Step 1: Authenticating with RCU API...'']]"

definition step2_lines :: "fstring list" where
  "step2_lines = [[], [Lit ''Step 2: Retrieving heritage sites...'']]"

definition step3_lines :: "fstring list" where
  "step3_lines = [[], [Lit ''Step 3: Submitting visitor permit application...'']]"

definition step4_lines :: "fstring list" where
  "step4_lines = [[], [Lit ''Step 4: Booking an event...'']]"

definition completed_lines :: "fstring list" where
  "completed_lines =
     [[],
      rule_line,
      [Lit ''Sample application completed successfully!''],
      rule_line]"

definition auth_failed_lines :: "fstring list" where
  "auth_failed_lines =
     [[],
      [Cross, Lit '' Authentication failed. Please check your API credentials.''],
      [Lit ''  API Key:'', Lit '' '', Lit (take 20 RCU_API_KEY @ ''...'')],
      [Lit ''  Base URL:'', Lit '' '', Lit RCU_API_BASE_URL]]"

text \<open>
  \<^verbatim>\<open>main\<close> returns \<^verbatim>\<open>None\<close>, here the unit value, unless an exception leaves one of the
  calls it makes: nothing in \<^verbatim>\<open>main\<close> catches it, so it leaves \<^verbatim>\<open>main\<close> as well.
\<close>

definition main :: "env \<Rightarrow> world \<Rightarrow> (exn + unit) \<times> world" where
  "main E w =
     (case prints banner_lines w of
        (Some e, w1) \<Rightarrow> (Inl e, w1)
      | (None, w1) \<Rightarrow>
     (let client = RCUAPIClient_init RCU_API_KEY RCU_SECRET_KEY RCU_CLIENT_ID
      in case prints step1_lines w1 of
        (Some e, w2) \<Rightarrow> (Inl e, w2)
      | (None, w2) \<Rightarrow>
     (case authenticate E client w2 of
        (Inl e, client, w3) \<Rightarrow> (Inl e, w3)
      | (Inr authenticated, client, w3) \<Rightarrow>
          if authenticated then
            (case prints step2_lines w3 of
               (Some e, w4) \<Rightarrow> (Inl e, w4)
             | (None, w4) \<Rightarrow>
            (case get_heritage_sites E client w4 of
               (Inl e, client, w5) \<Rightarrow> (Inl e, w5)
             | (Inr sites, client, w5) \<Rightarrow>
            (case prints step3_lines w5 of
               (Some e, w6) \<Rightarrow> (Inl e, w6)
             | (None, w6) \<Rightarrow>
            (case submit_visitor_permit E visitor_data client w6 of
               (Inl e, client, w7) \<Rightarrow> (Inl e, w7)
             | (Inr permit, client, w7) \<Rightarrow>
            (case prints step4_lines w7 of
               (Some e, w8) \<Rightarrow> (Inl e, w8)
             | (None, w8) \<Rightarrow>
            (case book_event E (PStr (str ''evt_12345'')) (PInt 2) client w8 of
               (Inl e, client, w9) \<Rightarrow> (Inl e, w9)
             | (Inr booking, client, w9) \<Rightarrow>
            (case prints completed_lines w9 of
               (Some e, w10) \<Rightarrow> (Inl e, w10)
             | (None, w10) \<Rightarrow> (Inr (), w10))))))))
          else
            (case prints auth_failed_lines w3 of
               (Some e, w4) \<Rightarrow> (Inl e, w4)
             | (None, w4) \<Rightarrow> (Inr (), w4)))))"

section \<open>Sequences of calls on one client\<close>

text \<open>
  A caller of the class makes calls one after another on the same object. \<open>invoke\<close> is one
  call, its result as a Python value; \<open>run_calls\<close> makes the calls of a list in order,
  going on after each whatever it gave (a caller may catch what a call raises), and logs
  each call with its result.
\<close>

datatype call =
    Authenticate
  | GetHeritageSites
  | SubmitVisitorPermit pyval
  | BookEvent pyval pyval

fun invoke :: "env \<Rightarrow> call \<Rightarrow> RCUAPIClient \<Rightarrow> world \<Rightarrow> pyval outcome" where
  "invoke E Authenticate self w =
     (case authenticate E self w of (r, self', w') \<Rightarrow> (map_sum id PBool r, self', w'))"
| "invoke E GetHeritageSites self w = get_heritage_sites E self w"
| "invoke E (SubmitVisitorPermit v) self w = submit_visitor_permit E v self w"
| "invoke E (BookEvent event_id attendee_count) self w = book_event E event_id attendee_count self w"

fun run_calls ::
  "env \<Rightarrow> call list \<Rightarrow> RCUAPIClient \<Rightarrow> world \<Rightarrow> (call \<times> (exn + pyval)) list \<times> RCUAPIClient \<times> world" where
  "run_calls E [] self w = ([], self, w)"
| "run_calls E (c # cs) self w =
     (case invoke E c self w of
        (r, self', w') \<Rightarrow>
          (case run_calls E cs self' w' of
             (trace, self'', w'') \<Rightarrow> ((c, r) # trace, self'', w'')))"

section \<open>The requests the methods send\<close>

text \<open>
  The request each method hands to the HTTP library, written out: the method and URL of
  its endpoint, its headers and its payload.
\<close>

definition authenticate_request :: "RCUAPIClient \<Rightarrow> request" where
  "authenticate_request self =
     \<lparr>req_method = POST, req_url = ''https://api.rcu.gov.sa/v1/auth/token'',
      req_headers = authenticate_headers self, req_json = Some (authenticate_payload self)\<rparr>"

definition get_heritage_sites_request :: "RCUAPIClient \<Rightarrow> request" where
  "get_heritage_sites_request self =
     \<lparr>req_method = GET, req_url = ''https://api.rcu.gov.sa/v1/heritage/sites'',
      req_headers = get_heritage_sites_headers self, req_json = None\<rparr>"

definition submit_visitor_permit_request :: "pyval \<Rightarrow> string \<Rightarrow> RCUAPIClient \<Rightarrow> request" where
  "submit_visitor_permit_request v now self =
     \<lparr>req_method = POST, req_url = ''https://api.rcu.gov.sa/v1/permits'',
      req_headers = json_headers self,
      req_json = Some (submit_visitor_permit_payload v now)\<rparr>"

definition book_event_request :: "pyval \<Rightarrow> pyval \<Rightarrow> string \<Rightarrow> RCUAPIClient \<Rightarrow> request" where
  "book_event_request event_id attendee_count now self =
     \<lparr>req_method = POST, req_url = ''https://api.rcu.gov.sa/v1/events/booking'',
      req_headers = json_headers self,
      req_json = Some (book_event_payload event_id attendee_count now)\<rparr>"

text \<open>The world once a request has been handed over, and once the clock has been read.\<close>

definition after_request :: "request \<Rightarrow> world \<Rightarrow> world" where
  "after_request rq w = w\<lparr>sent := sent w @ [rq]\<rparr>"

definition after_clock :: "world \<Rightarrow> world" where
  "after_clock w = w\<lparr>ticks := Suc (ticks w)\<rparr>"

section \<open>The failures a method handles\<close>

text \<open>
  \<open>is_RequestException\<close> is the test an \<^verbatim>\<open>except requests.exceptions.RequestException\<close>
  clause makes. A call has met a handled failure when the HTTP library raised such an
  exception, or answered with a status other than the success status \<open>ok\<close> of the method,
  or answered with that status and a body whose decoding raised such an exception.
\<close>

fun is_RequestException :: "exn \<Rightarrow> bool" where
  "is_RequestException (RequestException m) = True"
| "is_RequestException _ = False"

definition handled_failure :: "int \<Rightarrow> exn + response \<Rightarrow> bool" where
  "handled_failure ok out =
     (case out of
        Inl e \<Rightarrow> is_RequestException e
      | Inr r \<Rightarrow>
          status_code r \<noteq> ok
          \<or> (case json r of Inl e \<Rightarrow> is_RequestException e | Inr body \<Rightarrow> False))"

section \<open>Concrete runs\<close>

text \<open>
  Servers, clients and a world to run the program on: a server that answers by the URL
  alone, a clock that stands still, the client \<^verbatim>\<open>main\<close> builds, the same client holding
  a token, and the world before anything happened.
\<close>

definition server_by_url :: "(string \<Rightarrow> exn + response) \<Rightarrow> env" where
  "server_by_url f =
     \<lparr>http = (\<lambda>history rq. f (req_url rq)), clock = (\<lambda>n. ''2024-01-15T09:30:00'')\<rparr>"

definition fresh_client :: RCUAPIClient where
  "fresh_client = RCUAPIClient_init RCU_API_KEY RCU_SECRET_KEY RCU_CLIENT_ID"

definition token_client :: RCUAPIClient where
  "token_client = fresh_client\<lparr>access_token := PStr (str ''tok_1'')\<rparr>"

definition world0 :: world where
  "world0 = \<lparr>sent = [], stdout = [], ticks = 0\<rparr>"

text \<open>A server that answers each of the four endpoints the program uses in its own way.\<close>

definition routes ::
  "(exn + response) \<Rightarrow> (exn + response) \<Rightarrow> (exn + response) \<Rightarrow> (exn + response) \<Rightarrow> env" where
  "routes auth sites permits booking =
     server_by_url
       (\<lambda>u. if u = ''https://api.rcu.gov.sa/v1/auth/token'' then auth
            else if u = ''https://api.rcu.gov.sa/v1/heritage/sites'' then sites
            else if u = ''https://api.rcu.gov.sa/v1/permits'' then permits
            else booking)"

text \<open>
  Two servers for runs of \<^verbatim>\<open>main\<close>: one that refuses the credentials, and one that accepts
  them, then fails the site listing with a 500 and the permit with a timeout, and books
  the event.
\<close>

definition denying_server :: env where
  "denying_server =
     routes (Inr \<lparr>status_code = 401, json = Inr (PDict [(str ''error'', PStr (str ''invalid_client''))])\<rparr>)
            (Inr \<lparr>status_code = 401, json = Inr PNone\<rparr>)
            (Inr \<lparr>status_code = 401, json = Inr PNone\<rparr>)
            (Inr \<lparr>status_code = 401, json = Inr PNone\<rparr>)"

definition flaky_server :: env where
  "flaky_server =
     routes (Inr \<lparr>status_code = 200, json = Inr (PDict [(str ''access_token'', PStr (str ''tok_1''))])\<rparr>)
            (Inr \<lparr>status_code = 500, json = Inr PNone\<rparr>)
            (Inl (RequestException ''timed out''))
            (Inr \<lparr>status_code = 201, json = Inr (PDict [(str ''booking_id'', PStr (str ''BKG-7''))])\<rparr>)"

section \<open>What each method computes\<close>

text \<open>
  The endpoints the methods look up are in the table, so no lookup raises, and a line that
  interpolates no string of the server's can always be encoded, so its \<^verbatim>\<open>print\<close> is
  \<open>echo\<close>; with that, each method is a case distinction on what the HTTP library does with
  its one request.
\<close>

lemma str_eq_iff [simp]: "str a = str b \<longleftrightarrow> a = b"
  by (simp add: str_def inj_map_eq_map [OF inj_of_char])

lemma str_empty_iff [simp]: "str s = [] \<longleftrightarrow> s = []"
  by (simp add: str_def)

lemma str_encodable [simp]: "list_all (\<lambda>c. \<not> surrogate c) (str s)"
proof -
  have "\<not> surrogate (of_char c)" for c :: char
    using nat_of_char_less_256 [of c] unfolding surrogate_def by linarith
  then show ?thesis
    by (simp add: str_def list_all_iff)
qed

lemma print_encodable [simp]: "list_all encodable line \<Longrightarrow> print line w = Inr (echo line w)"
  by (simp add: print_def)

lemma print_unencodable [simp]:
  "\<not> list_all encodable line \<Longrightarrow> print line w = Inl (UnicodeEncodeError ''utf-8'')"
  by (simp add: print_def)

lemma refuse_eq [simp]: "refuse self w = (Inr PNone, self, echo not_authenticated w)"
  by (simp add: refuse_def not_authenticated_def)

lemma ENDPOINTS_subscript:
  "subscript ENDPOINTS ''auth'' = Inr ''https://api.rcu.gov.sa/v1/auth/token''"
  "subscript ENDPOINTS ''heritage_sites'' = Inr ''https://api.rcu.gov.sa/v1/heritage/sites''"
  "subscript ENDPOINTS ''permits'' = Inr ''https://api.rcu.gov.sa/v1/permits''"
  "subscript ENDPOINTS ''event_booking'' = Inr ''https://api.rcu.gov.sa/v1/events/booking''"
  by (simp_all add: subscript_def ENDPOINTS_def RCU_API_BASE_URL_def)

lemma authenticate_unfold:
  "authenticate E self w =
     (case http E (sent w) (authenticate_request self) of
        Inl e \<Rightarrow> authenticate_except e self (after_request (authenticate_request self) w)
      | Inr r \<Rightarrow>
          if status_code r = 200 then
            (case json r of
               Inl e \<Rightarrow> authenticate_except e self (after_request (authenticate_request self) w)
             | Inr data \<Rightarrow>
                (case py_get data ''access_token'' PNone of
                   Inl e \<Rightarrow> authenticate_except e self (after_request (authenticate_request self) w)
                 | Inr tok \<Rightarrow>
                     (Inr True, self\<lparr>access_token := tok\<rparr>,
                      echo [Tick, Lit '' Successfully authenticated with RCU at '',
                             Lit RCU_API_BASE_URL] (after_request (authenticate_request self) w))))
          else
            (Inr False, self,
             echo [Cross, Lit '' Authentication failed: '', FmtInt (status_code r)]
               (after_request (authenticate_request self) w)))"
  by (simp add: authenticate_def ENDPOINTS_subscript requests_post_def requests_call_def
      authenticate_request_def after_request_def split: sum.splits)

lemma get_heritage_sites_unfold:
  "truthy (access_token self) \<Longrightarrow>
   get_heritage_sites E self w =
     (case http E (sent w) (get_heritage_sites_request self) of
        Inl e \<Rightarrow> request_except e self (after_request (get_heritage_sites_request self) w)
      | Inr r \<Rightarrow>
          if status_code r = 200 then
            (case json r of
               Inl e \<Rightarrow> request_except e self (after_request (get_heritage_sites_request self) w)
             | Inr sites \<Rightarrow>
                (case py_get sites ''sites'' (PList []) of
                   Inl e \<Rightarrow> request_except e self (after_request (get_heritage_sites_request self) w)
                 | Inr listed \<Rightarrow>
                    (case py_len listed of
                       Inl e \<Rightarrow>
                         request_except e self (after_request (get_heritage_sites_request self) w)
                     | Inr n \<Rightarrow>
                         (Inr sites, self,
                          echo [Tick, Lit '' Retrieved '', FmtInt (int n), Lit '' heritage sites'']
                            (after_request (get_heritage_sites_request self) w)))))
          else
            (Inr PNone, self,
             echo [Cross, Lit '' Failed to retrieve sites: '', FmtInt (status_code r)]
               (after_request (get_heritage_sites_request self) w)))"
  by (simp add: get_heritage_sites_def ENDPOINTS_subscript requests_get_def requests_call_def
      get_heritage_sites_request_def after_request_def split: sum.splits)

lemma submit_visitor_permit_unfold:
  "truthy (access_token self) \<Longrightarrow>
   submit_visitor_permit E v self w =
     (let rq = submit_visitor_permit_request v (clock E (ticks w)) self;
          w1 = after_request rq (after_clock w)
      in case http E (sent w) rq of
        Inl e \<Rightarrow> request_except e self w1
      | Inr r \<Rightarrow>
          if status_code r = 201 then
            (case json r of
               Inl e \<Rightarrow> request_except e self w1
             | Inr permit \<Rightarrow>
                (case py_get permit ''permit_id'' PNone of
                   Inl e \<Rightarrow> request_except e self w1
                 | Inr permit_id \<Rightarrow>
                     if encodable (Fmt permit_id) then
                       (Inr permit, self,
                        echo [Tick, Lit '' Permit submitted successfully. Permit ID: '',
                              Fmt permit_id] w1)
                     else (Inl (UnicodeEncodeError ''utf-8''), self, w1)))
          else
            (Inr PNone, self,
             echo [Cross, Lit '' Failed to submit permit: '', FmtInt (status_code r)] w1))"
  by (simp add: submit_visitor_permit_def ENDPOINTS_subscript requests_post_def requests_call_def
      submit_visitor_permit_request_def after_request_def after_clock_def
      datetime_now_isoformat_def Let_def request_except_def split: sum.splits)

lemma book_event_unfold:
  "truthy (access_token self) \<Longrightarrow>
   book_event E event_id attendee_count self w =
     (let rq = book_event_request event_id attendee_count (clock E (ticks w)) self;
          w1 = after_request rq (after_clock w)
      in case http E (sent w) rq of
        Inl e \<Rightarrow> request_except e self w1
      | Inr r \<Rightarrow>
          if status_code r = 201 then
            (case json r of
               Inl e \<Rightarrow> request_except e self w1
             | Inr booking \<Rightarrow>
                (case py_get booking ''booking_id'' PNone of
                   Inl e \<Rightarrow> request_except e self w1
                 | Inr booking_id \<Rightarrow>
                     if encodable (Fmt booking_id) then
                       (Inr booking, self,
                        echo [Tick, Lit '' Event booked successfully. Booking ID: '',
                              Fmt booking_id] w1)
                     else (Inl (UnicodeEncodeError ''utf-8''), self, w1)))
          else
            (Inr PNone, self,
             echo [Cross, Lit '' Failed to book event: '', FmtInt (status_code r)] w1))"
  by (simp add: book_event_def ENDPOINTS_subscript requests_post_def requests_call_def
      book_event_request_def after_request_def after_clock_def
      datetime_now_isoformat_def Let_def request_except_def split: sum.splits)

lemma server_by_url_http [simp]: "http (server_by_url f) h rq = f (req_url rq)"
  by (simp add: server_by_url_def)

lemma server_by_url_clock [simp]: "clock (server_by_url f) n = ''2024-01-15T09:30:00''"
  by (simp add: server_by_url_def)

lemma world_after_echo [simp]:
  "sent (echo l w) = sent w"
  "stdout (echo l w) = stdout w @ [l]"
  "ticks (echo l w) = ticks w"
  by (simp_all add: echo_def)

lemma world_after_request [simp]:
  "sent (after_request rq w) = sent w @ [rq]"
  "stdout (after_request rq w) = stdout w"
  "ticks (after_request rq w) = ticks w"
  by (simp_all add: after_request_def)

lemma world_after_clock [simp]:
  "sent (after_clock w) = sent w"
  "stdout (after_clock w) = stdout w"
  "ticks (after_clock w) = Suc (ticks w)"
  by (simp_all add: after_clock_def)

lemma authenticate_except_cases:
  "authenticate_except e self w =
     (if is_RequestException e
      then (Inr False, self, echo [Cross, Lit '' Connection error: '', FmtExn e] w)
      else (Inl e, self, w))"
  by (cases e) (simp_all add: authenticate_except_def)

lemma request_except_cases:
  "request_except e self w =
     (if is_RequestException e
      then (Inr PNone, self, echo [Cross, Lit '' Request error: '', FmtExn e] w)
      else (Inl e, self, w))"
  by (cases e) (simp_all add: request_except_def)

lemma authenticate_raises:
  "fst (authenticate E self w) = Inl e \<Longrightarrow> \<not> is_RequestException e"
  by (auto simp add: authenticate_unfold authenticate_except_cases
      split: sum.splits if_splits)

lemma get_heritage_sites_raises:
  "fst (get_heritage_sites E self w) = Inl e \<Longrightarrow> \<not> is_RequestException e"
proof (cases "truthy (access_token self)")
  case True
  assume "fst (get_heritage_sites E self w) = Inl e"
  then show ?thesis
    by (auto simp add: get_heritage_sites_unfold [OF True] request_except_cases
        split: sum.splits if_splits)
next
  case False
  assume "fst (get_heritage_sites E self w) = Inl e"
  with False show ?thesis
    by (simp add: get_heritage_sites_def)
qed

lemma submit_visitor_permit_raises:
  "fst (submit_visitor_permit E v self w) = Inl e \<Longrightarrow> \<not> is_RequestException e"
proof (cases "truthy (access_token self)")
  case True
  assume "fst (submit_visitor_permit E v self w) = Inl e"
  then show ?thesis
    by (auto simp add: submit_visitor_permit_unfold [OF True] request_except_cases Let_def
        split: sum.splits if_splits)
next
  case False
  assume "fst (submit_visitor_permit E v self w) = Inl e"
  with False show ?thesis
    by (simp add: submit_visitor_permit_def)
qed

lemma book_event_raises:
  "fst (book_event E event_id attendee_count self w) = Inl e \<Longrightarrow> \<not> is_RequestException e"
proof (cases "truthy (access_token self)")
  case True
  assume "fst (book_event E event_id attendee_count self w) = Inl e"
  then show ?thesis
    by (auto simp add: book_event_unfold [OF True] request_except_cases Let_def
        split: sum.splits if_splits)
next
  case False
  assume "fst (book_event E event_id attendee_count self w) = Inl e"
  with False show ?thesis
    by (simp add: book_event_def)
qed

lemma authenticate_handled:
  "handled_failure 200 (http E (sent w) (authenticate_request self)) \<Longrightarrow>
   \<exists>line. authenticate E self w =
     (Inr False, self, echo line (after_request (authenticate_request self) w))"
  by (auto simp add: handled_failure_def authenticate_unfold authenticate_except_cases
      split: sum.splits)

lemma get_heritage_sites_handled:
  "truthy (access_token self) \<Longrightarrow>
   handled_failure 200 (http E (sent w) (get_heritage_sites_request self)) \<Longrightarrow>
   \<exists>line. get_heritage_sites E self w =
     (Inr PNone, self, echo line (after_request (get_heritage_sites_request self) w))"
  by (auto simp add: handled_failure_def get_heritage_sites_unfold request_except_cases
      split: sum.splits)

lemma submit_visitor_permit_handled:
  "truthy (access_token self) \<Longrightarrow>
   handled_failure 201
     (http E (sent w) (submit_visitor_permit_request v (clock E (ticks w)) self)) \<Longrightarrow>
   \<exists>line. submit_visitor_permit E v self w =
     (Inr PNone, self,
      echo line (after_request (submit_visitor_permit_request v (clock E (ticks w)) self)
        (after_clock w)))"
  by (auto simp add: handled_failure_def submit_visitor_permit_unfold request_except_cases Let_def
      split: sum.splits)

lemma book_event_handled:
  "truthy (access_token self) \<Longrightarrow>
   handled_failure 201
     (http E (sent w) (book_event_request event_id attendee_count (clock E (ticks w)) self)) \<Longrightarrow>
   \<exists>line. book_event E event_id attendee_count self w =
     (Inr PNone, self,
      echo line (after_request (book_event_request event_id attendee_count (clock E (ticks w)) self)
        (after_clock w)))"
  by (auto simp add: handled_failure_def book_event_unfold request_except_cases Let_def
      split: sum.splits)

lemma world_after_echoes [simp]:
  "sent (echoes ls w) = sent w"
  "stdout (echoes ls w) = stdout w @ ls"
  "ticks (echoes ls w) = ticks w"
  unfolding echoes_def by (induction ls arbitrary: w) simp_all

lemma echoes_Cons: "echoes (l # ls) w = echoes ls (echo l w)"
  by (simp add: echoes_def)

lemma prints_encodable:
  "list_all (list_all encodable) ls \<Longrightarrow> prints ls w = (None, echoes ls w)"
  by (induction ls arbitrary: w) (simp_all add: echoes_def)

lemma prints_lines [simp]:
  "prints banner_lines w = (None, echoes banner_lines w)"
  "prints step1_lines w = (None, echoes step1_lines w)"
  "prints step2_lines w = (None, echoes step2_lines w)"
  "prints step3_lines w = (None, echoes step3_lines w)"
  "prints step4_lines w = (None, echoes step4_lines w)"
  "prints completed_lines w = (None, echoes completed_lines w)"
  "prints auth_failed_lines w = (None, echoes auth_failed_lines w)"
  by (rule prints_encodable,
      simp add: banner_lines_def step1_lines_def step2_lines_def step3_lines_def step4_lines_def
        completed_lines_def auth_failed_lines_def rule_line_def)+

lemma routes_http [simp]:
  "http (routes a s p b) h (authenticate_request c) = a"
  "http (routes a s p b) h (get_heritage_sites_request c) = s"
  "http (routes a s p b) h (submit_visitor_permit_request v t c) = p"
  "http (routes a s p b) h (book_event_request i n t c) = b"
  by (simp_all add: routes_def authenticate_request_def get_heritage_sites_request_def
      submit_visitor_permit_request_def book_event_request_def)

lemma routes_clock [simp]: "clock (routes a s p b) n = ''2024-01-15T09:30:00''"
  by (simp add: routes_def)

lemma request_urls [simp]:
  "req_url (authenticate_request c) = ''https://api.rcu.gov.sa/v1/auth/token''"
  "req_url (get_heritage_sites_request c) = ''https://api.rcu.gov.sa/v1/heritage/sites''"
  "req_url (submit_visitor_permit_request v t c) = ''https://api.rcu.gov.sa/v1/permits''"
  "req_url (book_event_request i n t c) = ''https://api.rcu.gov.sa/v1/events/booking''"
  by (simp_all add: authenticate_request_def get_heritage_sites_request_def
      submit_visitor_permit_request_def book_event_request_def)

lemma authenticate_client:
  "fst (snd (authenticate E self w)) = self
   \<or> (fst (authenticate E self w) = Inr True
      \<and> (\<exists>tok. fst (snd (authenticate E self w)) = self\<lparr>access_token := tok\<rparr>))"
  by (auto simp add: authenticate_unfold authenticate_except_cases split: sum.splits)

lemma get_heritage_sites_client: "fst (snd (get_heritage_sites E self w)) = self"
proof (cases "truthy (access_token self)")
  case True
  then show ?thesis
    by (simp add: get_heritage_sites_unfold request_except_cases split: sum.splits)
next
  case False
  then show ?thesis
    by (simp add: get_heritage_sites_def)
qed

lemma submit_visitor_permit_client: "fst (snd (submit_visitor_permit E v self w)) = self"
proof (cases "truthy (access_token self)")
  case True
  then show ?thesis
    by (simp add: submit_visitor_permit_unfold request_except_cases Let_def split: sum.splits)
next
  case False
  then show ?thesis
    by (simp add: submit_visitor_permit_def)
qed

lemma book_event_client: "fst (snd (book_event E event_id attendee_count self w)) = self"
proof (cases "truthy (access_token self)")
  case True
  then show ?thesis
    by (simp add: book_event_unfold request_except_cases Let_def split: sum.splits)
next
  case False
  then show ?thesis
    by (simp add: book_event_def)
qed

lemma invoke_client:
  "fst (snd (invoke E c self w)) = self
   \<or> (c = Authenticate \<and> fst (invoke E c self w) = Inr (PBool True)
      \<and> (\<exists>tok. fst (snd (invoke E c self w)) = self\<lparr>access_token := tok\<rparr>))"
proof (cases c)
  case Authenticate
  then show ?thesis
    using authenticate_client [of E self w]
    by (auto simp add: split_beta)
next
  case GetHeritageSites
  then show ?thesis by (simp add: get_heritage_sites_client)
next
  case (SubmitVisitorPermit v)
  then show ?thesis by (simp add: submit_visitor_permit_client)
next
  case (BookEvent event_id attendee_count)
  then show ?thesis by (simp add: book_event_client)
qed

lemma run_calls_Cons:
  "run_calls E (c # cs) self w =
     ((c, fst (invoke E c self w))
        # fst (run_calls E cs (fst (snd (invoke E c self w))) (snd (snd (invoke E c self w)))),
      snd (run_calls E cs (fst (snd (invoke E c self w))) (snd (snd (invoke E c self w)))))"
  by (simp add: split_beta)

lemma run_calls_credentials:
  "api_key (fst (snd (run_calls E cs self w))) = api_key self
   \<and> secret_key (fst (snd (run_calls E cs self w))) = secret_key self
   \<and> client_id (fst (snd (run_calls E cs self w))) = client_id self"
proof (induction cs arbitrary: self w)
  case Nil
  show ?case by simp
next
  case (Cons c cs)
  have "api_key (fst (snd (invoke E c self w))) = api_key self
      \<and> secret_key (fst (snd (invoke E c self w))) = secret_key self
      \<and> client_id (fst (snd (invoke E c self w))) = client_id self"
    using invoke_client [of E c self w] by auto
  with Cons.IH [of "fst (snd (invoke E c self w))" "snd (snd (invoke E c self w))"]
  show ?case
    by (simp add: run_calls_Cons del: run_calls.simps)
qed

lemma run_calls_unchanged:
  "(Authenticate, Inr (PBool True)) \<notin> set (fst (run_calls E cs self w)) \<Longrightarrow>
   fst (snd (run_calls E cs self w)) = self"
proof (induction cs arbitrary: self w)
  case Nil
  show ?case by simp
next
  case (Cons c cs)
  from Cons.prems have here: "(c, fst (invoke E c self w)) \<noteq> (Authenticate, Inr (PBool True))"
    and later: "(Authenticate, Inr (PBool True)) \<notin>
      set (fst (run_calls E cs (fst (snd (invoke E c self w))) (snd (snd (invoke E c self w)))))"
    by (auto simp add: run_calls_Cons simp del: run_calls.simps invoke.simps)
  from here have "fst (snd (invoke E c self w)) = self"
    using invoke_client [of E c self w] by auto
  with Cons.IH [OF later] show ?case
    by (simp add: run_calls_Cons del: run_calls.simps)
qed

lemma no_token:
  "\<not> truthy (access_token self) \<Longrightarrow>
     get_heritage_sites E self w = (Inr PNone, self, echo not_authenticated w)"
  "\<not> truthy (access_token self) \<Longrightarrow>
     submit_visitor_permit E v self w = (Inr PNone, self, echo not_authenticated w)"
  "\<not> truthy (access_token self) \<Longrightarrow>
     book_event E event_id attendee_count self w = (Inr PNone, self, echo not_authenticated w)"
  by (simp_all add: get_heritage_sites_def submit_visitor_permit_def book_event_def)

lemma run_calls_no_token:
  "\<not> truthy (access_token self) \<Longrightarrow> Authenticate \<notin> set cs \<Longrightarrow>
   run_calls E cs self w =
     (map (\<lambda>c. (c, Inr PNone)) cs, self, echoes (replicate (length cs) not_authenticated) w)"
proof (induction cs arbitrary: w)
  case Nil
  show ?case by (simp add: echoes_def)
next
  case (Cons c cs)
  from Cons.prems have rest: "Authenticate \<notin> set cs" and "c \<noteq> Authenticate"
    by auto
  with Cons.prems(1) have "invoke E c self w = (Inr PNone, self, echo not_authenticated w)"
    by (cases c) (simp_all add: no_token)
  with Cons.IH [OF Cons.prems(1) rest, of "echo not_authenticated w"] show ?case
    by (simp add: echoes_Cons)
qed

lemma authenticate_propagates:
  "\<not> is_RequestException e \<Longrightarrow>
   http E (sent w) (authenticate_request self) = Inl e
     \<or> (\<exists>r. http E (sent w) (authenticate_request self) = Inr r \<and> status_code r = 200
          \<and> (json r = Inl e
               \<or> (\<exists>d. json r = Inr d \<and> py_get d ''access_token'' PNone = Inl e))) \<Longrightarrow>
   authenticate E self w = (Inl e, self, after_request (authenticate_request self) w)"
  by (auto simp add: authenticate_unfold authenticate_except_cases)

lemma get_heritage_sites_propagates:
  "truthy (access_token self) \<Longrightarrow> \<not> is_RequestException e \<Longrightarrow>
   http E (sent w) (get_heritage_sites_request self) = Inl e
     \<or> (\<exists>r. http E (sent w) (get_heritage_sites_request self) = Inr r \<and> status_code r = 200
          \<and> (json r = Inl e
               \<or> (\<exists>d. json r = Inr d
                     \<and> (py_get d ''sites'' (PList []) = Inl e
                          \<or> (\<exists>listed. py_get d ''sites'' (PList []) = Inr listed
                                \<and> py_len listed = Inl e))))) \<Longrightarrow>
   get_heritage_sites E self w =
     (Inl e, self, after_request (get_heritage_sites_request self) w)"
  by (auto simp add: get_heritage_sites_unfold request_except_cases)

lemma submit_visitor_permit_propagates:
  "truthy (access_token self) \<Longrightarrow> \<not> is_RequestException e \<Longrightarrow>
   http E (sent w) (submit_visitor_permit_request v (clock E (ticks w)) self) = Inl e
     \<or> (\<exists>r. http E (sent w) (submit_visitor_permit_request v (clock E (ticks w)) self) = Inr r
          \<and> status_code r = 201
          \<and> (json r = Inl e
               \<or> (\<exists>d. json r = Inr d
                     \<and> (py_get d ''permit_id'' PNone = Inl e
                          \<or> (\<exists>i. py_get d ''permit_id'' PNone = Inr i
                                \<and> print [Tick, Lit '' Permit submitted successfully. Permit ID: '',
                                          Fmt i]
                                     (after_request
                                        (submit_visitor_permit_request v (clock E (ticks w)) self)
                                        (after_clock w)) = Inl e))))) \<Longrightarrow>
   submit_visitor_permit E v self w =
     (Inl e, self,
      after_request (submit_visitor_permit_request v (clock E (ticks w)) self) (after_clock w))"
  by (auto simp add: submit_visitor_permit_unfold request_except_cases Let_def print_def
      split: if_splits)

lemma book_event_propagates:
  "truthy (access_token self) \<Longrightarrow> \<not> is_RequestException e \<Longrightarrow>
   http E (sent w) (book_event_request event_id attendee_count (clock E (ticks w)) self) = Inl e
     \<or> (\<exists>r. http E (sent w)
               (book_event_request event_id attendee_count (clock E (ticks w)) self) = Inr r
          \<and> status_code r = 201
          \<and> (json r = Inl e
               \<or> (\<exists>d. json r = Inr d
                     \<and> (py_get d ''booking_id'' PNone = Inl e
                          \<or> (\<exists>i. py_get d ''booking_id'' PNone = Inr i
                                \<and> print [Tick, Lit '' Event booked successfully. Booking ID: '',
                                          Fmt i]
                                     (after_request
                                        (book_event_request event_id attendee_count
                                           (clock E (ticks w)) self)
                                        (after_clock w)) = Inl e))))) \<Longrightarrow>
   book_event E event_id attendee_count self w =
     (Inl e, self,
      after_request (book_event_request event_id attendee_count (clock E (ticks w)) self)
        (after_clock w))"
  by (auto simp add: book_event_unfold request_except_cases Let_def print_def
      split: if_splits)

section \<open>The claims\<close>

text \<open>
  Claim C1, as amended. For every run of \<^verbatim>\<open>authenticate\<close>: if the POST to the auth endpoint
  returns status 200 and the body decodes to a JSON object, the client stores the value
  of the object's \<^verbatim>\<open>access_token\<close> field (\<^verbatim>\<open>None\<close> when the field is absent) and returns
  true, having printed the success line; on any other status, and on a network exception
  (a \<^verbatim>\<open>RequestException\<close> raised by the POST), it prints a failure line and returns false,
  the client unchanged. In each case the one request handed over is the auth request.
\<close>

theorem authenticate_contract:
  "(http E (sent w) (authenticate_request self) = Inr r \<and> status_code r = 200
      \<and> json r = Inr (PDict body) \<longrightarrow>
    authenticate E self w =
      (Inr True,
       self\<lparr>access_token := (case map_of body (str ''access_token'') of None \<Rightarrow> PNone | Some v \<Rightarrow> v)\<rparr>,
       echo [Tick, Lit '' Successfully authenticated with RCU at '', Lit RCU_API_BASE_URL]
         (after_request (authenticate_request self) w)))
   \<and> (http E (sent w) (authenticate_request self) = Inr r \<and> status_code r \<noteq> 200 \<longrightarrow>
    authenticate E self w =
      (Inr False, self,
       echo [Cross, Lit '' Authentication failed: '', FmtInt (status_code r)]
         (after_request (authenticate_request self) w)))
   \<and> (http E (sent w) (authenticate_request self) = Inl (RequestException m) \<longrightarrow>
    authenticate E self w =
      (Inr False, self,
       echo [Cross, Lit '' Connection error: '', FmtExn (RequestException m)]
         (after_request (authenticate_request self) w)))"
  by (simp add: authenticate_unfold authenticate_except_cases)

text \<open>
  The three cases of C1 on concrete runs: a 200 whose body is an object with a token, a
  401, and a refused connection.
\<close>

theorem authenticate_contract_witness:
  "authenticate
     (server_by_url (\<lambda>u. Inr \<lparr>status_code = 200, json = Inr (PDict [(str ''access_token'', PStr (str ''tok_1''))])\<rparr>))
     fresh_client world0 =
     (Inr True, fresh_client\<lparr>access_token := PStr (str ''tok_1'')\<rparr>,
      echo [Tick, Lit '' Successfully authenticated with RCU at '', Lit RCU_API_BASE_URL]
        (after_request (authenticate_request fresh_client) world0))
   \<and> authenticate
     (server_by_url (\<lambda>u. Inr \<lparr>status_code = 401, json = Inr (PDict [])\<rparr>))
     fresh_client world0 =
     (Inr False, fresh_client,
      echo [Cross, Lit '' Authentication failed: '', FmtInt 401]
        (after_request (authenticate_request fresh_client) world0))
   \<and> authenticate
     (server_by_url (\<lambda>u. Inl (RequestException ''connection refused'')))
     fresh_client world0 =
     (Inr False, fresh_client,
      echo [Cross, Lit '' Connection error: '', FmtExn (RequestException ''connection refused'')]
        (after_request (authenticate_request fresh_client) world0))"
  using
    authenticate_contract [of
      "server_by_url (\<lambda>u. Inr \<lparr>status_code = 200, json = Inr (PDict [(str ''access_token'', PStr (str ''tok_1''))])\<rparr>)"
      world0 fresh_client
      "\<lparr>status_code = 200, json = Inr (PDict [(str ''access_token'', PStr (str ''tok_1''))])\<rparr>"
      "[(str ''access_token'', PStr (str ''tok_1''))]" "''''"]
    authenticate_contract [of
      "server_by_url (\<lambda>u. Inr \<lparr>status_code = 401, json = Inr (PDict [])\<rparr>)"
      world0 fresh_client "\<lparr>status_code = 401, json = Inr (PDict [])\<rparr>" "[]" "''''"]
    authenticate_contract [of
      "server_by_url (\<lambda>u. Inl (RequestException ''connection refused''))"
      world0 fresh_client "\<lparr>status_code = 0, json = Inr PNone\<rparr>" "[]" "''connection refused''"]
  by simp

text \<open>
  C1 as the specification states it, for every response of status 200, fails: when the
  body of a 200 decodes to a JSON list, \<^verbatim>\<open>data.get\<close> raises \<^verbatim>\<open>AttributeError\<close>, which the
  \<^verbatim>\<open>except\<close> clause does not catch. The call neither returns true nor stores a token.
\<close>

theorem authenticate_list_body_counterexample:
  "authenticate
     (server_by_url (\<lambda>u. Inr \<lparr>status_code = 200, json = Inr (PList [PStr (str ''tok_1'')])\<rparr>))
     fresh_client world0 =
     (Inl (AttributeError ''get''), fresh_client,
      after_request (authenticate_request fresh_client) world0)"
  by (simp add: authenticate_unfold authenticate_except_cases)

text \<open>
  Claim C2. A call of \<^verbatim>\<open>get_heritage_sites\<close>, \<^verbatim>\<open>submit_visitor_permit\<close> or \<^verbatim>\<open>book_event\<close> on a
  client that holds no access token returns \<^verbatim>\<open>None\<close> and issues no network request: it
  prints the not-authenticated line and leaves the client, the requests sent and the clock
  as they were. No token is \<^verbatim>\<open>None\<close>, as the constructor leaves the field; the test of the
  code is \<^verbatim>\<open>not self.access_token\<close>, so the same holds of every falsy token.
\<close>

theorem calls_without_token:
  "\<not> truthy (access_token self) \<Longrightarrow>
     get_heritage_sites E self w = (Inr PNone, self, echo not_authenticated w)
   \<and> submit_visitor_permit E v self w = (Inr PNone, self, echo not_authenticated w)
   \<and> book_event E event_id attendee_count self w = (Inr PNone, self, echo not_authenticated w)
   \<and> sent (echo not_authenticated w) = sent w"
  by (simp add: get_heritage_sites_def submit_visitor_permit_def book_event_def echo_def)

text \<open>
  C2 on the client as constructed, against servers that would have answered with success.
\<close>

theorem calls_without_token_witness:
  "\<not> truthy (access_token fresh_client)
   \<and> get_heritage_sites (server_by_url (\<lambda>u. Inr \<lparr>status_code = 200, json = Inr (PDict [])\<rparr>))
       fresh_client world0 = (Inr PNone, fresh_client, echo not_authenticated world0)
   \<and> submit_visitor_permit (server_by_url (\<lambda>u. Inr \<lparr>status_code = 201, json = Inr (PDict [])\<rparr>))
       visitor_data fresh_client world0 = (Inr PNone, fresh_client, echo not_authenticated world0)
   \<and> book_event (server_by_url (\<lambda>u. Inr \<lparr>status_code = 201, json = Inr (PDict [])\<rparr>))
       (PStr (str ''evt_12345'')) (PInt 2) fresh_client world0 =
       (Inr PNone, fresh_client, echo not_authenticated world0)
   \<and> sent (echo not_authenticated world0) = []"
proof -
  have unset: "\<not> truthy (access_token fresh_client)"
    by (simp add: fresh_client_def RCUAPIClient_init_def)
  show ?thesis
    using unset
      calls_without_token [OF unset, of
        "server_by_url (\<lambda>u. Inr \<lparr>status_code = 200, json = Inr (PDict [])\<rparr>)" world0]
      calls_without_token [OF unset, of
        "server_by_url (\<lambda>u. Inr \<lparr>status_code = 201, json = Inr (PDict [])\<rparr>)" world0
        visitor_data "PStr (str ''evt_12345'')" "PInt 2"]
    by (simp add: world0_def)
qed

text \<open>
  Claim C3. If \<^verbatim>\<open>authenticate\<close> fails, that is the POST raises a network exception or the
  response status is not 200, it returns false and leaves the client, its access token
  included, unchanged; starting from a client as constructed, the token is still unset
  (\<^verbatim>\<open>None\<close>) afterwards.
\<close>

theorem authenticate_failure:
  "http E (sent w) (authenticate_request self) = Inl (RequestException m)
     \<or> (http E (sent w) (authenticate_request self) = Inr r \<and> status_code r \<noteq> 200) \<Longrightarrow>
   fst (authenticate E self w) = Inr False
   \<and> fst (snd (authenticate E self w)) = self
   \<and> access_token (fst (snd (authenticate E self w))) = access_token self
   \<and> (self = RCUAPIClient_init k s c \<longrightarrow> access_token (fst (snd (authenticate E self w))) = PNone)"
  by (auto simp add: authenticate_unfold authenticate_except_cases RCUAPIClient_init_def)

text \<open>
  C3 on a 503 answered to the client as constructed, and on a timeout met by a client that
  held a token before.
\<close>

theorem authenticate_failure_witness:
  "fst (authenticate (server_by_url (\<lambda>u. Inr \<lparr>status_code = 503, json = Inl (ValueError ''no JSON'')\<rparr>))
         fresh_client world0) = Inr False
   \<and> access_token (fst (snd (authenticate
         (server_by_url (\<lambda>u. Inr \<lparr>status_code = 503, json = Inl (ValueError ''no JSON'')\<rparr>))
         fresh_client world0))) = PNone
   \<and> fst (authenticate (server_by_url (\<lambda>u. Inl (RequestException ''timed out''))) token_client world0)
       = Inr False
   \<and> access_token (fst (snd (authenticate (server_by_url (\<lambda>u. Inl (RequestException ''timed out'')))
         token_client world0))) = PStr (str ''tok_1'')"
  using
    authenticate_failure [of
      "server_by_url (\<lambda>u. Inr \<lparr>status_code = 503, json = Inl (ValueError ''no JSON'')\<rparr>)"
      world0 fresh_client "''''" "\<lparr>status_code = 503, json = Inl (ValueError ''no JSON'')\<rparr>"
      RCU_API_KEY RCU_SECRET_KEY RCU_CLIENT_ID]
    authenticate_failure [of
      "server_by_url (\<lambda>u. Inl (RequestException ''timed out''))"
      world0 token_client "''timed out''" "\<lparr>status_code = 0, json = Inr PNone\<rparr>"
      RCU_API_KEY RCU_SECRET_KEY RCU_CLIENT_ID]
  by (simp add: fresh_client_def token_client_def RCUAPIClient_init_def)

text \<open>
  Claim C4, as amended. For every call of \<^verbatim>\<open>get_heritage_sites\<close> with an access token
  present: if the GET returns status 200 and the body decodes to a JSON object whose
  \<^verbatim>\<open>sites\<close> entry is absent or has a length (a list, an object or a string), the method
  returns the decoded body unmodified; on any other status, and on a network exception, it
  returns \<^verbatim>\<open>None\<close>.
\<close>

theorem get_heritage_sites_contract:
  "truthy (access_token self) \<Longrightarrow>
   (http E (sent w) (get_heritage_sites_request self) = Inr r \<and> status_code r = 200
      \<and> json r = Inr (PDict body)
      \<and> py_len (case map_of body (str ''sites'') of None \<Rightarrow> PList [] | Some v \<Rightarrow> v) = Inr n \<longrightarrow>
    get_heritage_sites E self w =
      (Inr (PDict body), self,
       echo [Tick, Lit '' Retrieved '', FmtInt (int n), Lit '' heritage sites'']
         (after_request (get_heritage_sites_request self) w)))
   \<and> (http E (sent w) (get_heritage_sites_request self) = Inr r \<and> status_code r \<noteq> 200 \<longrightarrow>
    get_heritage_sites E self w =
      (Inr PNone, self,
       echo [Cross, Lit '' Failed to retrieve sites: '', FmtInt (status_code r)]
         (after_request (get_heritage_sites_request self) w)))
   \<and> (http E (sent w) (get_heritage_sites_request self) = Inl (RequestException m) \<longrightarrow>
    get_heritage_sites E self w =
      (Inr PNone, self,
       echo [Cross, Lit '' Request error: '', FmtExn (RequestException m)]
         (after_request (get_heritage_sites_request self) w)))"
  by (simp add: get_heritage_sites_unfold request_except_cases)

text \<open>
  The three cases of C4 on concrete runs: a 200 listing two sites, a 500, and a timeout.
\<close>

theorem get_heritage_sites_contract_witness:
  "truthy (access_token token_client)
   \<and> get_heritage_sites
       (server_by_url (\<lambda>u. Inr \<lparr>status_code = 200,
          json = Inr (PDict [(str ''sites'', PList [PStr (str ''Hegra''), PStr (str ''Dadan'')])])\<rparr>))
       token_client world0 =
       (Inr (PDict [(str ''sites'', PList [PStr (str ''Hegra''), PStr (str ''Dadan'')])]), token_client,
        echo [Tick, Lit '' Retrieved '', FmtInt 2, Lit '' heritage sites'']
          (after_request (get_heritage_sites_request token_client) world0))
   \<and> get_heritage_sites
       (server_by_url (\<lambda>u. Inr \<lparr>status_code = 500, json = Inr (PDict [])\<rparr>))
       token_client world0 =
       (Inr PNone, token_client,
        echo [Cross, Lit '' Failed to retrieve sites: '', FmtInt 500]
          (after_request (get_heritage_sites_request token_client) world0))
   \<and> get_heritage_sites
       (server_by_url (\<lambda>u. Inl (RequestException ''timed out'')))
       token_client world0 =
       (Inr PNone, token_client,
        echo [Cross, Lit '' Request error: '', FmtExn (RequestException ''timed out'')]
          (after_request (get_heritage_sites_request token_client) world0))"
proof -
  have held: "truthy (access_token token_client)"
    by (simp add: token_client_def)
  show ?thesis
    using held
      get_heritage_sites_contract [OF held, of
        "server_by_url (\<lambda>u. Inr \<lparr>status_code = 200,
           json = Inr (PDict [(str ''sites'', PList [PStr (str ''Hegra''), PStr (str ''Dadan'')])])\<rparr>)"
        world0
        "\<lparr>status_code = 200, json = Inr (PDict [(str ''sites'', PList [PStr (str ''Hegra''), PStr (str ''Dadan'')])])\<rparr>"
        "[(str ''sites'', PList [PStr (str ''Hegra''), PStr (str ''Dadan'')])]" 2 "''''"]
      get_heritage_sites_contract [OF held, of
        "server_by_url (\<lambda>u. Inr \<lparr>status_code = 500, json = Inr (PDict [])\<rparr>)"
        world0 "\<lparr>status_code = 500, json = Inr (PDict [])\<rparr>" "[]" 0 "''''"]
      get_heritage_sites_contract [OF held, of
        "server_by_url (\<lambda>u. Inl (RequestException ''timed out''))"
        world0 "\<lparr>status_code = 0, json = Inr PNone\<rparr>" "[]" 0 "''timed out''"]
    by simp
qed

text \<open>
  C4 as the specification states it, for every response of status 200, fails: when the
  body of a 200 is a JSON list of sites, \<^verbatim>\<open>sites.get\<close> raises \<^verbatim>\<open>AttributeError\<close> and the
  method returns nothing, although the body was decoded.
\<close>

theorem get_heritage_sites_list_body_counterexample:
  "truthy (access_token token_client)
   \<and> get_heritage_sites
       (server_by_url (\<lambda>u. Inr \<lparr>status_code = 200,
          json = Inr (PList [PStr (str ''Hegra''), PStr (str ''Dadan'')])\<rparr>))
       token_client world0 =
       (Inl (AttributeError ''get''), token_client,
        after_request (get_heritage_sites_request token_client) world0)"
  by (simp add: get_heritage_sites_unfold request_except_cases token_client_def)

text \<open>
  Claim C5, as amended. For every call of \<^verbatim>\<open>submit_visitor_permit\<close> with an access token
  present: the one request handed over is the POST to the permits endpoint, and its
  payload holds the visitor data and the submission timestamp read from the clock; if the
  response status is 201, the body decodes to a JSON object, and the success line with
  the object's \<^verbatim>\<open>permit_id\<close> can be printed (the id, when it is a string, holds no
  surrogate), the method returns that object, and a \<^verbatim>\<open>permit_id\<close> the response contains
  is read off the returned record unchanged; on any other status, and on a network
  exception, it returns \<^verbatim>\<open>None\<close>.
\<close>

theorem submit_visitor_permit_contract:
  "truthy (access_token self) \<Longrightarrow>
   sent (snd (snd (submit_visitor_permit E v self w))) =
     sent w @ [submit_visitor_permit_request v (clock E (ticks w)) self]
   \<and> req_json (submit_visitor_permit_request v (clock E (ticks w)) self) =
     Some (PDict [(str ''visitor_info'', v), (str ''submission_date'', PStr (str (clock E (ticks w)))),
                 (str ''api_version'', PStr (str ''v1''))])
   \<and> (http E (sent w) (submit_visitor_permit_request v (clock E (ticks w)) self) = Inr r
        \<and> status_code r = 201 \<and> json r = Inr (PDict body)
        \<and> encodable (Fmt (case map_of body (str ''permit_id'') of None \<Rightarrow> PNone | Some i \<Rightarrow> i))
        \<longrightarrow>
      submit_visitor_permit E v self w =
        (Inr (PDict body), self,
         echo [Tick, Lit '' Permit submitted successfully. Permit ID: '',
                Fmt (case map_of body (str ''permit_id'') of None \<Rightarrow> PNone | Some i \<Rightarrow> i)]
           (after_request (submit_visitor_permit_request v (clock E (ticks w)) self)
              (after_clock w)))
      \<and> (\<forall>i. map_of body (str ''permit_id'') = Some i \<longrightarrow>
             py_get (PDict body) ''permit_id'' PNone = Inr i))
   \<and> (http E (sent w) (submit_visitor_permit_request v (clock E (ticks w)) self) = Inr r
        \<and> status_code r \<noteq> 201 \<longrightarrow>
      submit_visitor_permit E v self w =
        (Inr PNone, self,
         echo [Cross, Lit '' Failed to submit permit: '', FmtInt (status_code r)]
           (after_request (submit_visitor_permit_request v (clock E (ticks w)) self)
              (after_clock w))))
   \<and> (http E (sent w) (submit_visitor_permit_request v (clock E (ticks w)) self)
          = Inl (RequestException m) \<longrightarrow>
      submit_visitor_permit E v self w =
        (Inr PNone, self,
         echo [Cross, Lit '' Request error: '', FmtExn (RequestException m)]
           (after_request (submit_visitor_permit_request v (clock E (ticks w)) self)
              (after_clock w))))"
proof (intro conjI)
  assume held: "truthy (access_token self)"
  show "sent (snd (snd (submit_visitor_permit E v self w))) =
     sent w @ [submit_visitor_permit_request v (clock E (ticks w)) self]"
    by (simp add: submit_visitor_permit_unfold [OF held] Let_def request_except_cases echo_def
        after_request_def after_clock_def split: sum.splits exn.splits)
qed (simp_all add: submit_visitor_permit_unfold Let_def request_except_cases
      submit_visitor_permit_request_def submit_visitor_permit_payload_def)

text \<open>
  C5 on concrete runs: a 201 carrying the permit id \<^verbatim>\<open>PRM-001\<close>, a 200 (not the success
  status of this call), and a connection reset.
\<close>

theorem submit_visitor_permit_contract_witness:
  "truthy (access_token token_client)
   \<and> sent (snd (snd (submit_visitor_permit
        (server_by_url (\<lambda>u. Inr \<lparr>status_code = 201, json = Inr (PDict [(str ''permit_id'', PStr (str ''PRM-001''))])\<rparr>))
        visitor_data token_client world0))) =
       [submit_visitor_permit_request visitor_data ''2024-01-15T09:30:00'' token_client]
   \<and> req_json (submit_visitor_permit_request visitor_data ''2024-01-15T09:30:00'' token_client) =
       Some (PDict [(str ''visitor_info'', visitor_data),
                  (str ''submission_date'', PStr (str ''2024-01-15T09:30:00'')),
                  (str ''api_version'', PStr (str ''v1''))])
   \<and> submit_visitor_permit
       (server_by_url (\<lambda>u. Inr \<lparr>status_code = 201, json = Inr (PDict [(str ''permit_id'', PStr (str ''PRM-001''))])\<rparr>))
       visitor_data token_client world0 =
       (Inr (PDict [(str ''permit_id'', PStr (str ''PRM-001''))]), token_client,
        echo [Tick, Lit '' Permit submitted successfully. Permit ID: '', Fmt (PStr (str ''PRM-001''))]
          (after_request (submit_visitor_permit_request visitor_data ''2024-01-15T09:30:00'' token_client)
             (after_clock world0)))
   \<and> py_get (PDict [(str ''permit_id'', PStr (str ''PRM-001''))]) ''permit_id'' PNone = Inr (PStr (str ''PRM-001''))
   \<and> submit_visitor_permit
       (server_by_url (\<lambda>u. Inr \<lparr>status_code = 200, json = Inr (PDict [(str ''permit_id'', PStr (str ''PRM-001''))])\<rparr>))
       visitor_data token_client world0 =
       (Inr PNone, token_client,
        echo [Cross, Lit '' Failed to submit permit: '', FmtInt 200]
          (after_request (submit_visitor_permit_request visitor_data ''2024-01-15T09:30:00'' token_client)
             (after_clock world0)))
   \<and> submit_visitor_permit
       (server_by_url (\<lambda>u. Inl (RequestException ''connection reset'')))
       visitor_data token_client world0 =
       (Inr PNone, token_client,
        echo [Cross, Lit '' Request error: '', FmtExn (RequestException ''connection reset'')]
          (after_request (submit_visitor_permit_request visitor_data ''2024-01-15T09:30:00'' token_client)
             (after_clock world0)))"
proof -
  have held: "truthy (access_token token_client)"
    by (simp add: token_client_def)
  have start: "sent world0 = []" "ticks world0 = 0"
    by (simp_all add: world0_def)
  show ?thesis
    using held
      submit_visitor_permit_contract [OF held, of
        "server_by_url (\<lambda>u. Inr \<lparr>status_code = 201, json = Inr (PDict [(str ''permit_id'', PStr (str ''PRM-001''))])\<rparr>)"
        visitor_data world0
        "\<lparr>status_code = 201, json = Inr (PDict [(str ''permit_id'', PStr (str ''PRM-001''))])\<rparr>"
        "[(str ''permit_id'', PStr (str ''PRM-001''))]" "''''"]
      submit_visitor_permit_contract [OF held, of
        "server_by_url (\<lambda>u. Inr \<lparr>status_code = 200, json = Inr (PDict [(str ''permit_id'', PStr (str ''PRM-001''))])\<rparr>)"
        visitor_data world0
        "\<lparr>status_code = 200, json = Inr (PDict [(str ''permit_id'', PStr (str ''PRM-001''))])\<rparr>"
        "[]" "''''"]
      submit_visitor_permit_contract [OF held, of
        "server_by_url (\<lambda>u. Inl (RequestException ''connection reset''))"
        visitor_data world0 "\<lparr>status_code = 0, json = Inr PNone\<rparr>" "[]" "''connection reset''"]
    by (simp add: start)
qed

text \<open>
  C5 as the specification states it, for every response of status 201, fails in two
  ways. When the body of a 201 decodes to a JSON string, \<^verbatim>\<open>permit.get\<close> raises
  \<^verbatim>\<open>AttributeError\<close>. When it decodes to an object whose \<^verbatim>\<open>permit_id\<close> is the lone
  surrogate U+D800 (the JSON text \<^verbatim>\<open>"\ud800"\<close>), the \<^verbatim>\<open>print\<close> of the success line raises
  \<^verbatim>\<open>UnicodeEncodeError\<close> before the \<^verbatim>\<open>return\<close>. Neither is caught, and the method returns
  nothing.
\<close>

theorem submit_visitor_permit_string_body_counterexample:
  "truthy (access_token token_client)
   \<and> submit_visitor_permit
       (server_by_url (\<lambda>u. Inr \<lparr>status_code = 201, json = Inr (PStr (str ''PRM-001''))\<rparr>))
       visitor_data token_client world0 =
       (Inl (AttributeError ''get''), token_client,
        after_request (submit_visitor_permit_request visitor_data ''2024-01-15T09:30:00'' token_client)
          (after_clock world0))
   \<and> submit_visitor_permit
       (server_by_url (\<lambda>u. Inr \<lparr>status_code = 201,
          json = Inr (PDict [(str ''permit_id'', PStr [55296])])\<rparr>))
       visitor_data token_client world0 =
       (Inl (UnicodeEncodeError ''utf-8''), token_client,
        after_request (submit_visitor_permit_request visitor_data ''2024-01-15T09:30:00'' token_client)
          (after_clock world0))"
  by (simp add: submit_visitor_permit_unfold request_except_cases token_client_def world0_def surrogate_def)

text \<open>
  Claim C6, as amended. For every call of \<^verbatim>\<open>book_event\<close> with an access token present:
  the one request handed over is the POST to the event-booking endpoint, and its payload
  holds the event id, the attendee count and the booking timestamp read from the clock;
  if the response status is 201, the body decodes to a JSON object, and the success line
  with the object's \<^verbatim>\<open>booking_id\<close> can be printed (the id, when it is a string, holds no
  surrogate), the method returns that object, and a \<^verbatim>\<open>booking_id\<close> the response
  contains is read off the returned record unchanged; on any other status, and on a
  network exception, it returns \<^verbatim>\<open>None\<close>.
\<close>

theorem book_event_contract:
  "truthy (access_token self) \<Longrightarrow>
   sent (snd (snd (book_event E event_id attendee_count self w))) =
     sent w @ [book_event_request event_id attendee_count (clock E (ticks w)) self]
   \<and> req_json (book_event_request event_id attendee_count (clock E (ticks w)) self) =
     Some (PDict [(str ''event_id'', event_id), (str ''attendee_count'', attendee_count),
                 (str ''booking_date'', PStr (str (clock E (ticks w))))])
   \<and> (http E (sent w) (book_event_request event_id attendee_count (clock E (ticks w)) self) = Inr r
        \<and> status_code r = 201 \<and> json r = Inr (PDict body)
        \<and> encodable (Fmt (case map_of body (str ''booking_id'') of None \<Rightarrow> PNone | Some i \<Rightarrow> i))
        \<longrightarrow>
      book_event E event_id attendee_count self w =
        (Inr (PDict body), self,
         echo [Tick, Lit '' Event booked successfully. Booking ID: '',
                Fmt (case map_of body (str ''booking_id'') of None \<Rightarrow> PNone | Some i \<Rightarrow> i)]
           (after_request (book_event_request event_id attendee_count (clock E (ticks w)) self)
              (after_clock w)))
      \<and> (\<forall>i. map_of body (str ''booking_id'') = Some i \<longrightarrow>
             py_get (PDict body) ''booking_id'' PNone = Inr i))
   \<and> (http E (sent w) (book_event_request event_id attendee_count (clock E (ticks w)) self) = Inr r
        \<and> status_code r \<noteq> 201 \<longrightarrow>
      book_event E event_id attendee_count self w =
        (Inr PNone, self,
         echo [Cross, Lit '' Failed to book event: '', FmtInt (status_code r)]
           (after_request (book_event_request event_id attendee_count (clock E (ticks w)) self)
              (after_clock w))))
   \<and> (http E (sent w) (book_event_request event_id attendee_count (clock E (ticks w)) self)
          = Inl (RequestException m) \<longrightarrow>
      book_event E event_id attendee_count self w =
        (Inr PNone, self,
         echo [Cross, Lit '' Request error: '', FmtExn (RequestException m)]
           (after_request (book_event_request event_id attendee_count (clock E (ticks w)) self)
              (after_clock w))))"
proof (intro conjI)
  assume held: "truthy (access_token self)"
  show "sent (snd (snd (book_event E event_id attendee_count self w))) =
     sent w @ [book_event_request event_id attendee_count (clock E (ticks w)) self]"
    by (simp add: book_event_unfold [OF held] Let_def request_except_cases echo_def
        after_request_def after_clock_def split: sum.splits exn.splits)
qed (simp_all add: book_event_unfold Let_def request_except_cases
      book_event_request_def book_event_payload_def)

text \<open>
  C6 on concrete runs: a 201 carrying the booking id \<^verbatim>\<open>BKG-7\<close>, a 200, and a connection
  reset.
\<close>

theorem book_event_contract_witness:
  "truthy (access_token token_client)
   \<and> sent (snd (snd (book_event
        (server_by_url (\<lambda>u. Inr \<lparr>status_code = 201, json = Inr (PDict [(str ''booking_id'', PStr (str ''BKG-7''))])\<rparr>))
        (PStr (str ''evt_12345'')) (PInt 2) token_client world0))) =
       [book_event_request (PStr (str ''evt_12345'')) (PInt 2) ''2024-01-15T09:30:00'' token_client]
   \<and> req_json (book_event_request (PStr (str ''evt_12345'')) (PInt 2) ''2024-01-15T09:30:00'' token_client) =
       Some (PDict [(str ''event_id'', PStr (str ''evt_12345'')), (str ''attendee_count'', PInt 2),
                  (str ''booking_date'', PStr (str ''2024-01-15T09:30:00''))])
   \<and> book_event
       (server_by_url (\<lambda>u. Inr \<lparr>status_code = 201, json = Inr (PDict [(str ''booking_id'', PStr (str ''BKG-7''))])\<rparr>))
       (PStr (str ''evt_12345'')) (PInt 2) token_client world0 =
       (Inr (PDict [(str ''booking_id'', PStr (str ''BKG-7''))]), token_client,
        echo [Tick, Lit '' Event booked successfully. Booking ID: '', Fmt (PStr (str ''BKG-7''))]
          (after_request (book_event_request (PStr (str ''evt_12345'')) (PInt 2) ''2024-01-15T09:30:00'' token_client)
             (after_clock world0)))
   \<and> py_get (PDict [(str ''booking_id'', PStr (str ''BKG-7''))]) ''booking_id'' PNone = Inr (PStr (str ''BKG-7''))
   \<and> book_event
       (server_by_url (\<lambda>u. Inr \<lparr>status_code = 200, json = Inr (PDict [(str ''booking_id'', PStr (str ''BKG-7''))])\<rparr>))
       (PStr (str ''evt_12345'')) (PInt 2) token_client world0 =
       (Inr PNone, token_client,
        echo [Cross, Lit '' Failed to book event: '', FmtInt 200]
          (after_request (book_event_request (PStr (str ''evt_12345'')) (PInt 2) ''2024-01-15T09:30:00'' token_client)
             (after_clock world0)))
   \<and> book_event
       (server_by_url (\<lambda>u. Inl (RequestException ''connection reset'')))
       (PStr (str ''evt_12345'')) (PInt 2) token_client world0 =
       (Inr PNone, token_client,
        echo [Cross, Lit '' Request error: '', FmtExn (RequestException ''connection reset'')]
          (after_request (book_event_request (PStr (str ''evt_12345'')) (PInt 2) ''2024-01-15T09:30:00'' token_client)
             (after_clock world0)))"
proof -
  have held: "truthy (access_token token_client)"
    by (simp add: token_client_def)
  have start: "sent world0 = []" "ticks world0 = 0"
    by (simp_all add: world0_def)
  show ?thesis
    using held
      book_event_contract [OF held, of
        "server_by_url (\<lambda>u. Inr \<lparr>status_code = 201, json = Inr (PDict [(str ''booking_id'', PStr (str ''BKG-7''))])\<rparr>)"
        "PStr (str ''evt_12345'')" "PInt 2" world0
        "\<lparr>status_code = 201, json = Inr (PDict [(str ''booking_id'', PStr (str ''BKG-7''))])\<rparr>"
        "[(str ''booking_id'', PStr (str ''BKG-7''))]" "''''"]
      book_event_contract [OF held, of
        "server_by_url (\<lambda>u. Inr \<lparr>status_code = 200, json = Inr (PDict [(str ''booking_id'', PStr (str ''BKG-7''))])\<rparr>)"
        "PStr (str ''evt_12345'')" "PInt 2" world0
        "\<lparr>status_code = 200, json = Inr (PDict [(str ''booking_id'', PStr (str ''BKG-7''))])\<rparr>"
        "[]" "''''"]
      book_event_contract [OF held, of
        "server_by_url (\<lambda>u. Inl (RequestException ''connection reset''))"
        "PStr (str ''evt_12345'')" "PInt 2" world0 "\<lparr>status_code = 0, json = Inr PNone\<rparr>" "[]" "''connection reset''"]
    by (simp add: start)
qed

text \<open>
  C6 as the specification states it, for every response of status 201, fails in two
  ways. When the body of a 201 decodes to a JSON list, even one holding a booking record,
  \<^verbatim>\<open>booking.get\<close> raises \<^verbatim>\<open>AttributeError\<close>. When it decodes to an object whose
  \<^verbatim>\<open>booking_id\<close> is the lone surrogate U+D800, the \<^verbatim>\<open>print\<close> of the success line raises
  \<^verbatim>\<open>UnicodeEncodeError\<close> before the \<^verbatim>\<open>return\<close>. Neither is caught, and the method returns
  nothing.
\<close>

theorem book_event_list_body_counterexample:
  "truthy (access_token token_client)
   \<and> book_event
       (server_by_url (\<lambda>u. Inr \<lparr>status_code = 201, json = Inr (PList [PDict [(str ''booking_id'', PStr (str ''BKG-7''))]])\<rparr>))
       (PStr (str ''evt_12345'')) (PInt 2) token_client world0 =
       (Inl (AttributeError ''get''), token_client,
        after_request (book_event_request (PStr (str ''evt_12345'')) (PInt 2) ''2024-01-15T09:30:00'' token_client)
          (after_clock world0))
   \<and> book_event
       (server_by_url (\<lambda>u. Inr \<lparr>status_code = 201,
          json = Inr (PDict [(str ''booking_id'', PStr [55296])])\<rparr>))
       (PStr (str ''evt_12345'')) (PInt 2) token_client world0 =
       (Inl (UnicodeEncodeError ''utf-8''), token_client,
        after_request (book_event_request (PStr (str ''evt_12345'')) (PInt 2) ''2024-01-15T09:30:00'' token_client)
          (after_clock world0))"
  by (simp add: book_event_unfold request_except_cases token_client_def world0_def surrogate_def)

text \<open>
  Claim C7, as amended. No \<^verbatim>\<open>RequestException\<close> propagates out of any of the four client
  methods, and each method converts every handled failure (a network error of that class,
  a status other than its success status, or a body of success status whose decoding
  raises an error of that class) into a \<^verbatim>\<open>None\<close> or false return value plus one printed
  line, the client unchanged. Exceptions of other classes are not caught: an exception
  \<open>e\<close> that is not a \<^verbatim>\<open>RequestException\<close> and is raised by the HTTP call, by the decoding
  of a body of success status, by \<^verbatim>\<open>.get\<close> on the decoded body, by \<^verbatim>\<open>len\<close> of the \<^verbatim>\<open>sites\<close>
  entry, or by the \<^verbatim>\<open>print\<close> of the permit or booking line, leaves the method as it is,
  with nothing printed and the client unchanged.
\<close>

theorem request_exceptions_converted:
  "fst (authenticate E self w) \<noteq> Inl (RequestException m)
   \<and> fst (get_heritage_sites E self w) \<noteq> Inl (RequestException m)
   \<and> fst (submit_visitor_permit E v self w) \<noteq> Inl (RequestException m)
   \<and> fst (book_event E event_id attendee_count self w) \<noteq> Inl (RequestException m)
   \<and> (handled_failure 200 (http E (sent w) (authenticate_request self)) \<longrightarrow>
        (\<exists>line. authenticate E self w =
           (Inr False, self, echo line (after_request (authenticate_request self) w))))
   \<and> (truthy (access_token self)
        \<and> handled_failure 200 (http E (sent w) (get_heritage_sites_request self)) \<longrightarrow>
        (\<exists>line. get_heritage_sites E self w =
           (Inr PNone, self, echo line (after_request (get_heritage_sites_request self) w))))
   \<and> (truthy (access_token self)
        \<and> handled_failure 201
             (http E (sent w) (submit_visitor_permit_request v (clock E (ticks w)) self)) \<longrightarrow>
        (\<exists>line. submit_visitor_permit E v self w =
           (Inr PNone, self,
            echo line
              (after_request (submit_visitor_permit_request v (clock E (ticks w)) self)
                 (after_clock w)))))
   \<and> (truthy (access_token self)
        \<and> handled_failure 201
             (http E (sent w)
                (book_event_request event_id attendee_count (clock E (ticks w)) self)) \<longrightarrow>
        (\<exists>line. book_event E event_id attendee_count self w =
           (Inr PNone, self,
            echo line
              (after_request
                 (book_event_request event_id attendee_count (clock E (ticks w)) self)
                 (after_clock w)))))
   \<and> (\<not> is_RequestException e
        \<and> (http E (sent w) (authenticate_request self) = Inl e
             \<or> (\<exists>r. http E (sent w) (authenticate_request self) = Inr r \<and> status_code r = 200
                  \<and> (json r = Inl e
                       \<or> (\<exists>d. json r = Inr d \<and> py_get d ''access_token'' PNone = Inl e))))
        \<longrightarrow>
        authenticate E self w = (Inl e, self, after_request (authenticate_request self) w))
   \<and> (truthy (access_token self) \<and> \<not> is_RequestException e
        \<and> (http E (sent w) (get_heritage_sites_request self) = Inl e
             \<or> (\<exists>r. http E (sent w) (get_heritage_sites_request self) = Inr r
                  \<and> status_code r = 200
                  \<and> (json r = Inl e
                       \<or> (\<exists>d. json r = Inr d
                             \<and> (py_get d ''sites'' (PList []) = Inl e
                                  \<or> (\<exists>listed. py_get d ''sites'' (PList []) = Inr listed
                                        \<and> py_len listed = Inl e))))))
        \<longrightarrow>
        get_heritage_sites E self w =
          (Inl e, self, after_request (get_heritage_sites_request self) w))
   \<and> (truthy (access_token self) \<and> \<not> is_RequestException e
        \<and> (http E (sent w) (submit_visitor_permit_request v (clock E (ticks w)) self) = Inl e
             \<or> (\<exists>r. http E (sent w)
                       (submit_visitor_permit_request v (clock E (ticks w)) self) = Inr r
                  \<and> status_code r = 201
                  \<and> (json r = Inl e
                       \<or> (\<exists>d. json r = Inr d
                             \<and> (py_get d ''permit_id'' PNone = Inl e
                                  \<or> (\<exists>i. py_get d ''permit_id'' PNone = Inr i
                                        \<and> print [Tick,
                                                  Lit '' Permit submitted successfully. Permit ID: '',
                                                  Fmt i]
                                             (after_request
                                                (submit_visitor_permit_request v
                                                   (clock E (ticks w)) self)
                                                (after_clock w)) = Inl e))))))
        \<longrightarrow>
        submit_visitor_permit E v self w =
          (Inl e, self,
           after_request (submit_visitor_permit_request v (clock E (ticks w)) self)
             (after_clock w)))
   \<and> (truthy (access_token self) \<and> \<not> is_RequestException e
        \<and> (http E (sent w)
              (book_event_request event_id attendee_count (clock E (ticks w)) self) = Inl e
             \<or> (\<exists>r. http E (sent w)
                       (book_event_request event_id attendee_count (clock E (ticks w)) self)
                     = Inr r
                  \<and> status_code r = 201
                  \<and> (json r = Inl e
                       \<or> (\<exists>d. json r = Inr d
                             \<and> (py_get d ''booking_id'' PNone = Inl e
                                  \<or> (\<exists>i. py_get d ''booking_id'' PNone = Inr i
                                        \<and> print [Tick,
                                                  Lit '' Event booked successfully. Booking ID: '',
                                                  Fmt i]
                                             (after_request
                                                (book_event_request event_id attendee_count
                                                   (clock E (ticks w)) self)
                                                (after_clock w)) = Inl e))))))
        \<longrightarrow>
        book_event E event_id attendee_count self w =
          (Inl e, self,
           after_request (book_event_request event_id attendee_count (clock E (ticks w)) self)
             (after_clock w)))"
proof (intro conjI)
  show "fst (authenticate E self w) \<noteq> Inl (RequestException m)"
    using authenticate_raises [of E self w "RequestException m"] by auto
  show "fst (get_heritage_sites E self w) \<noteq> Inl (RequestException m)"
    using get_heritage_sites_raises [of E self w "RequestException m"] by auto
  show "fst (submit_visitor_permit E v self w) \<noteq> Inl (RequestException m)"
    using submit_visitor_permit_raises [of E v self w "RequestException m"] by auto
  show "fst (book_event E event_id attendee_count self w) \<noteq> Inl (RequestException m)"
    using book_event_raises [of E event_id attendee_count self w "RequestException m"] by auto
qed (simp_all add: authenticate_handled get_heritage_sites_handled
      submit_visitor_permit_handled book_event_handled
      authenticate_propagates get_heritage_sites_propagates
      submit_visitor_permit_propagates book_event_propagates)

text \<open>
  C7 on a handled failure of each kind, one per method (a timeout, a 200 whose body
  fails to decode with a \<^verbatim>\<open>RequestException\<close>, a 500, and a refused connection), and on
  an exception of another class, one per method: a decoding error that is a
  \<^verbatim>\<open>ValueError\<close>, a \<^verbatim>\<open>sites\<close> entry that is \<^verbatim>\<open>null\<close>, a \<^verbatim>\<open>permit_id\<close> that is the lone
  surrogate U+DC00, and a \<^verbatim>\<open>TypeError\<close> raised by the HTTP call.
\<close>

theorem request_exceptions_converted_witness:
  "handled_failure 200 (Inl (RequestException ''timed out''))
   \<and> fst (authenticate (server_by_url (\<lambda>u. Inl (RequestException ''timed out'')))
            fresh_client world0) = Inr False
   \<and> length (stdout (snd (snd (authenticate
        (server_by_url (\<lambda>u. Inl (RequestException ''timed out''))) fresh_client world0)))) = 1
   \<and> truthy (access_token token_client)
   \<and> handled_failure 200
        (Inr \<lparr>status_code = 200, json = Inl (RequestException ''Expecting value'')\<rparr>)
   \<and> fst (get_heritage_sites
        (server_by_url
           (\<lambda>u. Inr \<lparr>status_code = 200, json = Inl (RequestException ''Expecting value'')\<rparr>))
        token_client world0) = Inr PNone
   \<and> handled_failure 201 (Inr \<lparr>status_code = 500, json = Inr PNone\<rparr>)
   \<and> fst (submit_visitor_permit
        (server_by_url (\<lambda>u. Inr \<lparr>status_code = 500, json = Inr PNone\<rparr>))
        visitor_data token_client world0) = Inr PNone
   \<and> handled_failure 201 (Inl (RequestException ''connection refused''))
   \<and> fst (book_event (server_by_url (\<lambda>u. Inl (RequestException ''connection refused'')))
        (PStr (str ''evt_12345'')) (PInt 2) token_client world0) = Inr PNone
   \<and> authenticate
        (server_by_url (\<lambda>u. Inr \<lparr>status_code = 200, json = Inl (ValueError ''Expecting value'')\<rparr>))
        fresh_client world0 =
       (Inl (ValueError ''Expecting value''), fresh_client,
        after_request (authenticate_request fresh_client) world0)
   \<and> get_heritage_sites
        (server_by_url (\<lambda>u. Inr \<lparr>status_code = 200, json = Inr (PDict [(str ''sites'', PNone)])\<rparr>))
        token_client world0 =
       (Inl (TypeError ''len''), token_client,
        after_request (get_heritage_sites_request token_client) world0)
   \<and> submit_visitor_permit
        (server_by_url
           (\<lambda>u. Inr \<lparr>status_code = 201, json = Inr (PDict [(str ''permit_id'', PStr [56320])])\<rparr>))
        visitor_data token_client world0 =
       (Inl (UnicodeEncodeError ''utf-8''), token_client,
        after_request
          (submit_visitor_permit_request visitor_data ''2024-01-15T09:30:00'' token_client)
          (after_clock world0))
   \<and> book_event
        (server_by_url (\<lambda>u. Inl (TypeError ''not JSON serializable'')))
        (PStr (str ''evt_12345'')) (PInt 2) token_client world0 =
       (Inl (TypeError ''not JSON serializable''), token_client,
        after_request
          (book_event_request (PStr (str ''evt_12345'')) (PInt 2) ''2024-01-15T09:30:00''
             token_client)
          (after_clock world0))"
proof -
  have held: "truthy (access_token token_client)"
    by (simp add: token_client_def)
  have f1: "handled_failure 200 (Inl (RequestException ''timed out''))"
    and f2: "handled_failure 200
        (Inr \<lparr>status_code = 200, json = Inl (RequestException ''Expecting value'')\<rparr>)"
    and f3: "handled_failure 201 (Inr \<lparr>status_code = 500, json = Inr PNone\<rparr>)"
    and f4: "handled_failure 201 (Inl (RequestException ''connection refused''))"
    by (simp_all add: handled_failure_def)
  have start: "ticks world0 = 0"
    by (simp add: world0_def)
  have "\<exists>line. authenticate (server_by_url (\<lambda>u. Inl (RequestException ''timed out'')))
          fresh_client world0 =
        (Inr False, fresh_client,
         echo line (after_request (authenticate_request fresh_client) world0))"
    using f1 request_exceptions_converted [of
        "server_by_url (\<lambda>u. Inl (RequestException ''timed out''))" fresh_client world0
        "[]" PNone PNone PNone]
    by simp
  then have r1: "fst (authenticate (server_by_url (\<lambda>u. Inl (RequestException ''timed out'')))
            fresh_client world0) = Inr False"
    and l1: "length (stdout (snd (snd (authenticate
        (server_by_url (\<lambda>u. Inl (RequestException ''timed out''))) fresh_client world0)))) = 1"
    by (auto simp add: world0_def)
  have "\<exists>line. get_heritage_sites
          (server_by_url
             (\<lambda>u. Inr \<lparr>status_code = 200, json = Inl (RequestException ''Expecting value'')\<rparr>))
          token_client world0 =
        (Inr PNone, token_client,
         echo line (after_request (get_heritage_sites_request token_client) world0))"
    using held f2 request_exceptions_converted [of
        "server_by_url
           (\<lambda>u. Inr \<lparr>status_code = 200, json = Inl (RequestException ''Expecting value'')\<rparr>)"
        token_client world0 "[]" PNone PNone PNone]
    by simp
  then have r2: "fst (get_heritage_sites
        (server_by_url
           (\<lambda>u. Inr \<lparr>status_code = 200, json = Inl (RequestException ''Expecting value'')\<rparr>))
        token_client world0) = Inr PNone"
    by auto
  have "\<exists>line. submit_visitor_permit
          (server_by_url (\<lambda>u. Inr \<lparr>status_code = 500, json = Inr PNone\<rparr>))
          visitor_data token_client world0 =
        (Inr PNone, token_client,
         echo line
           (after_request
              (submit_visitor_permit_request visitor_data ''2024-01-15T09:30:00'' token_client)
              (after_clock world0)))"
    using held f3 request_exceptions_converted [of
        "server_by_url (\<lambda>u. Inr \<lparr>status_code = 500, json = Inr PNone\<rparr>)"
        token_client world0 "[]" visitor_data PNone PNone]
    by simp
  then have r3: "fst (submit_visitor_permit
        (server_by_url (\<lambda>u. Inr \<lparr>status_code = 500, json = Inr PNone\<rparr>))
        visitor_data token_client world0) = Inr PNone"
    by auto
  have "\<exists>line. book_event (server_by_url (\<lambda>u. Inl (RequestException ''connection refused'')))
          (PStr (str ''evt_12345'')) (PInt 2) token_client world0 =
        (Inr PNone, token_client,
         echo line
           (after_request
              (book_event_request (PStr (str ''evt_12345'')) (PInt 2) ''2024-01-15T09:30:00''
                 token_client)
              (after_clock world0)))"
    using held f4 request_exceptions_converted [of
        "server_by_url (\<lambda>u. Inl (RequestException ''connection refused''))"
        token_client world0 "[]" PNone "PStr (str ''evt_12345'')" "PInt 2"]
    by simp
  then have r4: "fst (book_event (server_by_url (\<lambda>u. Inl (RequestException ''connection refused'')))
        (PStr (str ''evt_12345'')) (PInt 2) token_client world0) = Inr PNone"
    by auto
  have p1: "authenticate
        (server_by_url (\<lambda>u. Inr \<lparr>status_code = 200, json = Inl (ValueError ''Expecting value'')\<rparr>))
        fresh_client world0 =
       (Inl (ValueError ''Expecting value''), fresh_client,
        after_request (authenticate_request fresh_client) world0)"
    using request_exceptions_converted [where
        E = "server_by_url
          (\<lambda>u. Inr \<lparr>status_code = 200, json = Inl (ValueError ''Expecting value'')\<rparr>)"
        and self = fresh_client and w = world0 and e = "ValueError ''Expecting value''"]
    by simp
  have p2: "get_heritage_sites
        (server_by_url (\<lambda>u. Inr \<lparr>status_code = 200, json = Inr (PDict [(str ''sites'', PNone)])\<rparr>))
        token_client world0 =
       (Inl (TypeError ''len''), token_client,
        after_request (get_heritage_sites_request token_client) world0)"
    using held request_exceptions_converted [where
        E = "server_by_url
          (\<lambda>u. Inr \<lparr>status_code = 200, json = Inr (PDict [(str ''sites'', PNone)])\<rparr>)"
        and self = token_client and w = world0 and e = "TypeError ''len''"]
    by simp
  have p3: "submit_visitor_permit
        (server_by_url
           (\<lambda>u. Inr \<lparr>status_code = 201, json = Inr (PDict [(str ''permit_id'', PStr [56320])])\<rparr>))
        visitor_data token_client world0 =
       (Inl (UnicodeEncodeError ''utf-8''), token_client,
        after_request
          (submit_visitor_permit_request visitor_data ''2024-01-15T09:30:00'' token_client)
          (after_clock world0))"
    using held request_exceptions_converted [where
        E = "server_by_url
          (\<lambda>u. Inr \<lparr>status_code = 201, json = Inr (PDict [(str ''permit_id'', PStr [56320])])\<rparr>)"
        and self = token_client and w = world0 and v = visitor_data
        and e = "UnicodeEncodeError ''utf-8''"]
    by (simp add: surrogate_def start)
  have p4: "book_event
        (server_by_url (\<lambda>u. Inl (TypeError ''not JSON serializable'')))
        (PStr (str ''evt_12345'')) (PInt 2) token_client world0 =
       (Inl (TypeError ''not JSON serializable''), token_client,
        after_request
          (book_event_request (PStr (str ''evt_12345'')) (PInt 2) ''2024-01-15T09:30:00''
             token_client)
          (after_clock world0))"
    using held request_exceptions_converted [where
        E = "server_by_url (\<lambda>u. Inl (TypeError ''not JSON serializable''))"
        and self = token_client and w = world0 and event_id = "PStr (str ''evt_12345'')"
        and attendee_count = "PInt 2" and e = "TypeError ''not JSON serializable''"]
    by (simp add: start)
  from held f1 f2 f3 f4 r1 l1 r2 r3 r4 p1 p2 p3 p4 show ?thesis
    by simp
qed

text \<open>
  C7 as the specification states it, for every response, fails for each of the four
  methods: a body of success status that is not a JSON object makes \<^verbatim>\<open>.get\<close> raise
  \<^verbatim>\<open>AttributeError\<close>, and a \<^verbatim>\<open>sites\<close> entry without a length makes \<^verbatim>\<open>len\<close> raise
  \<^verbatim>\<open>TypeError\<close>; neither is a \<^verbatim>\<open>RequestException\<close>, so each leaves the method.
\<close>

theorem uncaught_exceptions_counterexample:
  "fst (authenticate
          (server_by_url (\<lambda>u. Inr \<lparr>status_code = 200, json = Inr (PInt 7)\<rparr>))
          fresh_client world0) = Inl (AttributeError ''get'')
   \<and> fst (get_heritage_sites
          (server_by_url
             (\<lambda>u. Inr \<lparr>status_code = 200, json = Inr (PDict [(str ''sites'', PInt 3)])\<rparr>))
          token_client world0) = Inl (TypeError ''len'')
   \<and> fst (submit_visitor_permit
          (server_by_url (\<lambda>u. Inr \<lparr>status_code = 201, json = Inr PNone\<rparr>))
          visitor_data token_client world0) = Inl (AttributeError ''get'')
   \<and> fst (book_event
          (server_by_url (\<lambda>u. Inr \<lparr>status_code = 201, json = Inr (PBool True)\<rparr>))
          (PStr (str ''evt_12345'')) (PInt 2) token_client world0) = Inl (AttributeError ''get'')"
  by (simp add: authenticate_unfold get_heritage_sites_unfold submit_visitor_permit_unfold
      book_event_unfold authenticate_except_cases request_except_cases token_client_def)

text \<open>
  Claim C8, as amended. In \<^verbatim>\<open>main\<close>: if \<^verbatim>\<open>authenticate\<close> returns false, none of the three
  other operations is attempted, the run ending with the failure lines and no request
  beyond the one \<^verbatim>\<open>authenticate\<close> made; if \<^verbatim>\<open>authenticate\<close> returns true and each call
  that follows returns, \<^verbatim>\<open>main\<close> performs \<^verbatim>\<open>get_heritage_sites\<close>, \<^verbatim>\<open>submit_visitor_permit\<close>
  and \<^verbatim>\<open>book_event\<close> in that order, each on the client and the world the call before it
  left, whatever the results \<open>sites\<close>, \<open>permit\<close> and \<open>booking\<close> are: a \<^verbatim>\<open>None\<close> result does
  not prevent the later steps.
\<close>

theorem main_sequence:
  "(authenticate E (RCUAPIClient_init RCU_API_KEY RCU_SECRET_KEY RCU_CLIENT_ID)
       (echoes step1_lines (echoes banner_lines w)) = (Inr False, c1, w1) \<longrightarrow>
      main E w = (Inr (), echoes auth_failed_lines w1)
      \<and> sent (snd (main E w)) = sent w1)
   \<and> (authenticate E (RCUAPIClient_init RCU_API_KEY RCU_SECRET_KEY RCU_CLIENT_ID)
       (echoes step1_lines (echoes banner_lines w)) = (Inr True, c1, w1)
      \<and> get_heritage_sites E c1 (echoes step2_lines w1) = (Inr sites, c2, w2)
      \<and> submit_visitor_permit E visitor_data c2 (echoes step3_lines w2) = (Inr permit, c3, w3)
      \<and> book_event E (PStr (str ''evt_12345'')) (PInt 2) c3 (echoes step4_lines w3)
          = (Inr booking, c4, w4) \<longrightarrow>
      main E w = (Inr (), echoes completed_lines w4))"
  by (simp add: main_def Let_def)

text \<open>
  C8 on two runs: against the server that refuses the credentials, \<^verbatim>\<open>main\<close> makes the
  auth request alone; against the server that fails the site listing and the permit,
  both steps give \<^verbatim>\<open>None\<close> and \<^verbatim>\<open>main\<close> still makes all four requests in order and prints
  the lines of every step.
\<close>

theorem main_sequence_witness:
  "main denying_server world0 =
     (Inr (),
      echoes auth_failed_lines
        (echo [Cross, Lit '' Authentication failed: '', FmtInt 401]
           (after_request
              (authenticate_request (RCUAPIClient_init RCU_API_KEY RCU_SECRET_KEY RCU_CLIENT_ID))
              (echoes step1_lines (echoes banner_lines world0)))))
   \<and> map req_url (sent (snd (main denying_server world0))) =
       [''https://api.rcu.gov.sa/v1/auth/token'']
   \<and> fst (main flaky_server world0) = Inr ()
   \<and> map req_url (sent (snd (main flaky_server world0))) =
       [''https://api.rcu.gov.sa/v1/auth/token'',
        ''https://api.rcu.gov.sa/v1/heritage/sites'',
        ''https://api.rcu.gov.sa/v1/permits'',
        ''https://api.rcu.gov.sa/v1/events/booking'']
   \<and> stdout (snd (main flaky_server world0)) =
       banner_lines @ step1_lines
       @ [[Tick, Lit '' Successfully authenticated with RCU at '', Lit RCU_API_BASE_URL]]
       @ step2_lines
       @ [[Cross, Lit '' Failed to retrieve sites: '', FmtInt 500]]
       @ step3_lines
       @ [[Cross, Lit '' Request error: '', FmtExn (RequestException ''timed out'')]]
       @ step4_lines
       @ [[Tick, Lit '' Event booked successfully. Booking ID: '', Fmt (PStr (str ''BKG-7''))]]
       @ completed_lines"
proof -
  let ?fresh = "RCUAPIClient_init RCU_API_KEY RCU_SECRET_KEY RCU_CLIENT_ID"
  let ?holder = "?fresh\<lparr>access_token := PStr (str ''tok_1'')\<rparr>"
  let ?begun = "echoes step1_lines (echoes banner_lines world0)"
  let ?refused = "echo [Cross, Lit '' Authentication failed: '', FmtInt 401]
               (after_request (authenticate_request ?fresh) ?begun)"
  let ?authed = "echo [Tick, Lit '' Successfully authenticated with RCU at '', Lit RCU_API_BASE_URL]
               (after_request (authenticate_request ?fresh) ?begun)"
  let ?listed = "echo [Cross, Lit '' Failed to retrieve sites: '', FmtInt 500]
               (after_request (get_heritage_sites_request ?holder) (echoes step2_lines ?authed))"
  let ?applied = "echo [Cross, Lit '' Request error: '', FmtExn (RequestException ''timed out'')]
               (after_request
                  (submit_visitor_permit_request visitor_data ''2024-01-15T09:30:00'' ?holder)
                  (after_clock (echoes step3_lines ?listed)))"
  let ?booked = "echo [Tick, Lit '' Event booked successfully. Booking ID: '', Fmt (PStr (str ''BKG-7''))]
               (after_request
                  (book_event_request (PStr (str ''evt_12345'')) (PInt 2) ''2024-01-15T09:30:00'' ?holder)
                  (after_clock (echoes step4_lines ?applied)))"
  have held: "truthy (access_token ?holder)"
    by simp
  have denied: "authenticate denying_server ?fresh ?begun = (Inr False, ?fresh, ?refused)"
    by (simp add: authenticate_unfold denying_server_def)
  have a: "authenticate flaky_server ?fresh ?begun = (Inr True, ?holder, ?authed)"
    by (simp add: authenticate_unfold flaky_server_def)
  have g: "get_heritage_sites flaky_server ?holder (echoes step2_lines ?authed) = (Inr PNone, ?holder, ?listed)"
    by (simp add: get_heritage_sites_unfold [OF held] flaky_server_def)
  have s: "submit_visitor_permit flaky_server visitor_data ?holder (echoes step3_lines ?listed)
             = (Inr PNone, ?holder, ?applied)"
    by (simp add: submit_visitor_permit_unfold [OF held] request_except_cases flaky_server_def)
  have b: "book_event flaky_server (PStr (str ''evt_12345'')) (PInt 2) ?holder (echoes step4_lines ?applied)
             = (Inr (PDict [(str ''booking_id'', PStr (str ''BKG-7''))]), ?holder, ?booked)"
    by (simp add: book_event_unfold [OF held] flaky_server_def)
  have stopped: "main denying_server world0 = (Inr (), echoes auth_failed_lines ?refused)"
    using denied main_sequence [of denying_server world0 ?fresh ?refused]
    by simp
  have ran: "main flaky_server world0 = (Inr (), echoes completed_lines ?booked)"
    using a g s b
      main_sequence [of flaky_server world0 ?holder ?authed PNone ?holder ?listed PNone ?holder ?applied
        "PDict [(str ''booking_id'', PStr (str ''BKG-7''))]" ?holder ?booked]
    by simp
  show ?thesis
    unfolding stopped ran by (simp add: world0_def)
qed

text \<open>
  C8 as the specification states it fails: \<^verbatim>\<open>authenticate\<close> returns true, the site listing
  answers 200 with a JSON list, \<^verbatim>\<open>get_heritage_sites\<close> raises \<^verbatim>\<open>AttributeError\<close>, and the
  exception ends \<^verbatim>\<open>main\<close>: the permit and booking requests are never made, although both
  endpoints would have answered 201.
\<close>

theorem main_list_of_sites_counterexample:
  "fst (authenticate
          (routes (Inr \<lparr>status_code = 200, json = Inr (PDict [(str ''access_token'', PStr (str ''tok_1''))])\<rparr>)
                  (Inr \<lparr>status_code = 200, json = Inr (PList [PStr (str ''Hegra'')])\<rparr>)
                  (Inr \<lparr>status_code = 201, json = Inr (PDict [(str ''permit_id'', PStr (str ''PRM-001''))])\<rparr>)
                  (Inr \<lparr>status_code = 201, json = Inr (PDict [(str ''booking_id'', PStr (str ''BKG-7''))])\<rparr>))
          (RCUAPIClient_init RCU_API_KEY RCU_SECRET_KEY RCU_CLIENT_ID)
          (echoes step1_lines (echoes banner_lines world0))) = Inr True
   \<and> fst (main
          (routes (Inr \<lparr>status_code = 200, json = Inr (PDict [(str ''access_token'', PStr (str ''tok_1''))])\<rparr>)
                  (Inr \<lparr>status_code = 200, json = Inr (PList [PStr (str ''Hegra'')])\<rparr>)
                  (Inr \<lparr>status_code = 201, json = Inr (PDict [(str ''permit_id'', PStr (str ''PRM-001''))])\<rparr>)
                  (Inr \<lparr>status_code = 201, json = Inr (PDict [(str ''booking_id'', PStr (str ''BKG-7''))])\<rparr>))
          world0) = Inl (AttributeError ''get'')
   \<and> map req_url (sent (snd (main
          (routes (Inr \<lparr>status_code = 200, json = Inr (PDict [(str ''access_token'', PStr (str ''tok_1''))])\<rparr>)
                  (Inr \<lparr>status_code = 200, json = Inr (PList [PStr (str ''Hegra'')])\<rparr>)
                  (Inr \<lparr>status_code = 201, json = Inr (PDict [(str ''permit_id'', PStr (str ''PRM-001''))])\<rparr>)
                  (Inr \<lparr>status_code = 201, json = Inr (PDict [(str ''booking_id'', PStr (str ''BKG-7''))])\<rparr>))
          world0))) =
       [''https://api.rcu.gov.sa/v1/auth/token'', ''https://api.rcu.gov.sa/v1/heritage/sites'']"
  by (simp add: main_def Let_def authenticate_unfold get_heritage_sites_unfold
      request_except_cases world0_def)

text \<open>
  Claim C9. For every sequence of client operations on a client, run by \<open>run_calls\<close>: the
  credential fields \<^verbatim>\<open>api_key\<close>, \<^verbatim>\<open>secret_key\<close> and \<^verbatim>\<open>client_id\<close> are at the end what they
  were at the start, and a sequence in which no \<^verbatim>\<open>authenticate\<close> call returned true leaves
  the whole client unchanged. For every single call: if it changed \<^verbatim>\<open>access_token\<close>, it was
  \<^verbatim>\<open>authenticate\<close> and it returned true; and \<^verbatim>\<open>get_heritage_sites\<close>,
  \<^verbatim>\<open>submit_visitor_permit\<close> and \<^verbatim>\<open>book_event\<close> leave the entire client state unchanged,
  whatever they return or raise.
\<close>

theorem client_state_frame:
  "api_key (fst (snd (run_calls E cs self w))) = api_key self
   \<and> secret_key (fst (snd (run_calls E cs self w))) = secret_key self
   \<and> client_id (fst (snd (run_calls E cs self w))) = client_id self
   \<and> ((Authenticate, Inr (PBool True)) \<notin> set (fst (run_calls E cs self w)) \<longrightarrow>
        fst (snd (run_calls E cs self w)) = self)
   \<and> (access_token (fst (snd (invoke E c self w))) \<noteq> access_token self \<longrightarrow>
        c = Authenticate \<and> fst (invoke E c self w) = Inr (PBool True))
   \<and> fst (snd (get_heritage_sites E self w)) = self
   \<and> fst (snd (submit_visitor_permit E v self w)) = self
   \<and> fst (snd (book_event E event_id attendee_count self w)) = self"
  using run_calls_credentials [of E cs self w] run_calls_unchanged [of E cs self w]
    invoke_client [of E c self w]
  by (auto simp add: get_heritage_sites_client submit_visitor_permit_client book_event_client)

text \<open>
  C9 on the four calls in the order of \<^verbatim>\<open>main\<close>: against the refusing server no
  \<^verbatim>\<open>authenticate\<close> returns true and the client ends as constructed; against the other
  server \<^verbatim>\<open>authenticate\<close> returns true and changes the token, and the credentials are
  still the configured ones after all four calls.
\<close>

theorem client_state_frame_witness:
  "(Authenticate, Inr (PBool True)) \<notin> set (fst (run_calls denying_server
        [Authenticate, GetHeritageSites, SubmitVisitorPermit visitor_data,
         BookEvent (PStr (str ''evt_12345'')) (PInt 2)] fresh_client world0))
   \<and> fst (snd (run_calls denying_server
        [Authenticate, GetHeritageSites, SubmitVisitorPermit visitor_data,
         BookEvent (PStr (str ''evt_12345'')) (PInt 2)] fresh_client world0)) = fresh_client
   \<and> access_token (fst (snd (invoke flaky_server Authenticate fresh_client world0)))
        \<noteq> access_token fresh_client
   \<and> fst (invoke flaky_server Authenticate fresh_client world0) = Inr (PBool True)
   \<and> api_key (fst (snd (run_calls flaky_server
        [Authenticate, GetHeritageSites, SubmitVisitorPermit visitor_data,
         BookEvent (PStr (str ''evt_12345'')) (PInt 2)] fresh_client world0))) = RCU_API_KEY
   \<and> secret_key (fst (snd (run_calls flaky_server
        [Authenticate, GetHeritageSites, SubmitVisitorPermit visitor_data,
         BookEvent (PStr (str ''evt_12345'')) (PInt 2)] fresh_client world0))) = RCU_SECRET_KEY
   \<and> client_id (fst (snd (run_calls flaky_server
        [Authenticate, GetHeritageSites, SubmitVisitorPermit visitor_data,
         BookEvent (PStr (str ''evt_12345'')) (PInt 2)] fresh_client world0))) = RCU_CLIENT_ID"
proof -
  let ?cs = "[Authenticate, GetHeritageSites, SubmitVisitorPermit visitor_data,
         BookEvent (PStr (str ''evt_12345'')) (PInt 2)]"
  have unset: "\<not> truthy (access_token fresh_client)"
    by (simp add: fresh_client_def RCUAPIClient_init_def)
  have refused: "authenticate denying_server fresh_client world0 =
      (Inr False, fresh_client,
       echo [Cross, Lit '' Authentication failed: '', FmtInt 401]
         (after_request (authenticate_request fresh_client) world0))"
    by (simp add: authenticate_unfold denying_server_def)
  have never: "(Authenticate, Inr (PBool True)) \<notin> set (fst (run_calls denying_server ?cs
        fresh_client world0))"
    by (simp add: refused no_token [OF unset])
  have granted: "authenticate flaky_server fresh_client world0 =
      (Inr True, fresh_client\<lparr>access_token := PStr (str ''tok_1'')\<rparr>,
       echo [Tick, Lit '' Successfully authenticated with RCU at '', Lit RCU_API_BASE_URL]
         (after_request (authenticate_request fresh_client) world0))"
    by (simp add: authenticate_unfold flaky_server_def)
  have changed: "access_token (fst (snd (invoke flaky_server Authenticate fresh_client world0)))
        \<noteq> access_token fresh_client"
  proof -
    have "access_token fresh_client = PNone"
      by (simp add: fresh_client_def RCUAPIClient_init_def)
    then show ?thesis
      by (simp add: granted)
  qed
  have keys: "api_key fresh_client = RCU_API_KEY" "secret_key fresh_client = RCU_SECRET_KEY"
    "client_id fresh_client = RCU_CLIENT_ID"
    by (simp_all add: fresh_client_def RCUAPIClient_init_def)
  show ?thesis
    using never changed
      client_state_frame [of denying_server ?cs fresh_client world0 Authenticate]
      client_state_frame [of flaky_server ?cs fresh_client world0 Authenticate]
    by (simp add: keys)
qed

text \<open>
  Claim C10. On an HTTP 200 whose JSON object lacks \<^verbatim>\<open>access_token\<close>, or maps it to a falsy
  value, \<^verbatim>\<open>authenticate\<close> returns true and stores that value (\<^verbatim>\<open>None\<close> when the field is
  absent); the stored token is falsy, so afterwards, against any server \<open>E'\<close> and in any
  world \<open>w'\<close>, each of \<^verbatim>\<open>get_heritage_sites\<close>, \<^verbatim>\<open>submit_visitor_permit\<close> and \<^verbatim>\<open>book_event\<close>
  fails the token test and returns \<^verbatim>\<open>None\<close>, and so does every call of any sequence \<open>cs\<close> of
  them, without a network request.
\<close>

theorem falsy_token_accepted:
  "http E (sent w) (authenticate_request self) = Inr r \<and> status_code r = 200
     \<and> json r = Inr (PDict body)
     \<and> (map_of body (str ''access_token'') = None
         \<or> (\<exists>tok. map_of body (str ''access_token'') = Some tok \<and> \<not> truthy tok)) \<Longrightarrow>
   fst (authenticate E self w) = Inr True
   \<and> access_token (fst (snd (authenticate E self w)))
       = (case map_of body (str ''access_token'') of None \<Rightarrow> PNone | Some tok \<Rightarrow> tok)
   \<and> \<not> truthy (access_token (fst (snd (authenticate E self w))))
   \<and> get_heritage_sites E' (fst (snd (authenticate E self w))) w' =
       (Inr PNone, fst (snd (authenticate E self w)), echo not_authenticated w')
   \<and> submit_visitor_permit E' v (fst (snd (authenticate E self w))) w' =
       (Inr PNone, fst (snd (authenticate E self w)), echo not_authenticated w')
   \<and> book_event E' event_id attendee_count (fst (snd (authenticate E self w))) w' =
       (Inr PNone, fst (snd (authenticate E self w)), echo not_authenticated w')
   \<and> (Authenticate \<notin> set cs \<longrightarrow>
        run_calls E' cs (fst (snd (authenticate E self w))) w' =
          (map (\<lambda>c. (c, Inr PNone)) cs, fst (snd (authenticate E self w)),
           echoes (replicate (length cs) not_authenticated) w')
        \<and> sent (snd (snd (run_calls E' cs (fst (snd (authenticate E self w))) w'))) = sent w')"
proof -
  assume resp: "http E (sent w) (authenticate_request self) = Inr r \<and> status_code r = 200
     \<and> json r = Inr (PDict body)
     \<and> (map_of body (str ''access_token'') = None
         \<or> (\<exists>tok. map_of body (str ''access_token'') = Some tok \<and> \<not> truthy tok))"
  let ?tok = "case map_of body (str ''access_token'') of None \<Rightarrow> PNone | Some tok \<Rightarrow> tok"
  from resp have run: "authenticate E self w =
      (Inr True, self\<lparr>access_token := ?tok\<rparr>,
       echo [Tick, Lit '' Successfully authenticated with RCU at '', Lit RCU_API_BASE_URL]
         (after_request (authenticate_request self) w))"
    by (simp add: authenticate_unfold)
  from resp have falsy: "\<not> truthy ?tok"
    by auto
  then have untrue: "\<not> truthy (access_token (fst (snd (authenticate E self w))))"
    by (simp add: run)
  show ?thesis
    using falsy no_token [OF untrue] run_calls_no_token [OF untrue, of cs E' w']
    by (simp add: run)
qed

text \<open>
  Such responses exist: a 200 whose object has no \<^verbatim>\<open>access_token\<close> field, and a 200 whose
  \<^verbatim>\<open>access_token\<close> is the empty string. After the second, the three calls in a row all
  return \<^verbatim>\<open>None\<close> and nothing is sent.
\<close>

theorem falsy_token_accepted_witness:
  "fst (authenticate
          (server_by_url (\<lambda>u. Inr \<lparr>status_code = 200, json = Inr (PDict [(str ''token_type'', PStr (str ''Bearer''))])\<rparr>))
          fresh_client world0) = Inr True
   \<and> access_token (fst (snd (authenticate
          (server_by_url (\<lambda>u. Inr \<lparr>status_code = 200, json = Inr (PDict [(str ''token_type'', PStr (str ''Bearer''))])\<rparr>))
          fresh_client world0))) = PNone
   \<and> fst (authenticate
          (server_by_url (\<lambda>u. Inr \<lparr>status_code = 200, json = Inr (PDict [(str ''access_token'', PStr [])])\<rparr>))
          fresh_client world0) = Inr True
   \<and> access_token (fst (snd (authenticate
          (server_by_url (\<lambda>u. Inr \<lparr>status_code = 200, json = Inr (PDict [(str ''access_token'', PStr [])])\<rparr>))
          fresh_client world0))) = PStr []
   \<and> fst (run_calls
          (server_by_url (\<lambda>u. Inr \<lparr>status_code = 200, json = Inr (PDict [(str ''access_token'', PStr [])])\<rparr>))
          [GetHeritageSites, SubmitVisitorPermit visitor_data, BookEvent (PStr (str ''evt_12345'')) (PInt 2)]
          (fst (snd (authenticate
             (server_by_url (\<lambda>u. Inr \<lparr>status_code = 200, json = Inr (PDict [(str ''access_token'', PStr [])])\<rparr>))
             fresh_client world0)))
          world0) =
       [(GetHeritageSites, Inr PNone), (SubmitVisitorPermit visitor_data, Inr PNone),
        (BookEvent (PStr (str ''evt_12345'')) (PInt 2), Inr PNone)]
   \<and> sent (snd (snd (run_calls
          (server_by_url (\<lambda>u. Inr \<lparr>status_code = 200, json = Inr (PDict [(str ''access_token'', PStr [])])\<rparr>))
          [GetHeritageSites, SubmitVisitorPermit visitor_data, BookEvent (PStr (str ''evt_12345'')) (PInt 2)]
          (fst (snd (authenticate
             (server_by_url (\<lambda>u. Inr \<lparr>status_code = 200, json = Inr (PDict [(str ''access_token'', PStr [])])\<rparr>))
             fresh_client world0)))
          world0))) = []"
proof -
  let ?absent = "server_by_url
    (\<lambda>u. Inr \<lparr>status_code = 200, json = Inr (PDict [(str ''token_type'', PStr (str ''Bearer''))])\<rparr>)"
  let ?empty = "server_by_url
    (\<lambda>u. Inr \<lparr>status_code = 200, json = Inr (PDict [(str ''access_token'', PStr [])])\<rparr>)"
  let ?cs = "[GetHeritageSites, SubmitVisitorPermit visitor_data,
    BookEvent (PStr (str ''evt_12345'')) (PInt 2)]"
  have h1: "http ?absent (sent world0) (authenticate_request fresh_client) =
        Inr \<lparr>status_code = 200, json = Inr (PDict [(str ''token_type'', PStr (str ''Bearer''))])\<rparr>
      \<and> status_code \<lparr>status_code = 200, json = Inr (PDict [(str ''token_type'', PStr (str ''Bearer''))])\<rparr> = 200
      \<and> json \<lparr>status_code = 200, json = Inr (PDict [(str ''token_type'', PStr (str ''Bearer''))])\<rparr>
          = Inr (PDict [(str ''token_type'', PStr (str ''Bearer''))])
      \<and> (map_of [(str ''token_type'', PStr (str ''Bearer''))] (str ''access_token'') = None
         \<or> (\<exists>tok. map_of [(str ''token_type'', PStr (str ''Bearer''))] (str ''access_token'') = Some tok
               \<and> \<not> truthy tok))"
    by simp
  have h2: "http ?empty (sent world0) (authenticate_request fresh_client) =
        Inr \<lparr>status_code = 200, json = Inr (PDict [(str ''access_token'', PStr [])])\<rparr>
      \<and> status_code \<lparr>status_code = 200, json = Inr (PDict [(str ''access_token'', PStr [])])\<rparr> = 200
      \<and> json \<lparr>status_code = 200, json = Inr (PDict [(str ''access_token'', PStr [])])\<rparr>
          = Inr (PDict [(str ''access_token'', PStr [])])
      \<and> (map_of [(str ''access_token'', PStr [])] (str ''access_token'') = None
         \<or> (\<exists>tok. map_of [(str ''access_token'', PStr [])] (str ''access_token'') = Some tok
               \<and> \<not> truthy tok))"
    by simp
  have start: "sent world0 = []"
    by (simp add: world0_def)
  note absent = falsy_token_accepted [OF h1, of ?absent world0 PNone PNone PNone "[]"]
  note empty = falsy_token_accepted [OF h2, of ?empty world0 PNone PNone PNone ?cs]
  from absent have a1: "fst (authenticate ?absent fresh_client world0) = Inr True"
    and a2: "access_token (fst (snd (authenticate ?absent fresh_client world0))) = PNone"
    by simp_all
  from empty have e1: "fst (authenticate ?empty fresh_client world0) = Inr True"
    and e2: "access_token (fst (snd (authenticate ?empty fresh_client world0))) = PStr []"
    by simp_all
  from empty have e3: "run_calls ?empty ?cs
        (fst (snd (authenticate ?empty fresh_client world0))) world0 =
      (map (\<lambda>c. (c, Inr PNone)) ?cs, fst (snd (authenticate ?empty fresh_client world0)),
       echoes (replicate (length ?cs) not_authenticated) world0)"
    by (simp del: run_calls.simps)
  show ?thesis
    unfolding e3 using a1 a2 e1 e2 by (simp add: start)
qed

end
